theory Spec2Isabelle
  imports Main "HOL-Library.Sublist"
begin

section \<open>Python strings\<close>

text \<open>
  A Python \<open>str\<close> is modelled as a \<open>string\<close>, one \<open>char\<close> per code point; code points
  are therefore limited to the range below 256. The character classes follow CPython for
  that range.
\<close>

definition dq :: char where
  "dq = CHR 0x22"

definition cr :: char where
  "cr = CHR 0x0D"

definition lf :: char where
  "lf = CHR 0x0A"

text \<open>The separator \<open>","\<close> (quote, comma, quote) on which every line rule splits.\<close>

definition field_sep :: string where
  "field_sep = [dq, CHR '','', dq]"

definition is_space :: "char \<Rightarrow> bool" where
  "is_space c =
     (let n = (of_char c :: nat)
      in (9 \<le> n \<and> n \<le> 13) \<or> (28 \<le> n \<and> n \<le> 32) \<or> n = 133 \<or> n = 160)"

definition is_upper :: "char \<Rightarrow> bool" where
  "is_upper c =
     (let n = (of_char c :: nat)
      in (65 \<le> n \<and> n \<le> 90) \<or> (192 \<le> n \<and> n \<le> 214) \<or> (216 \<le> n \<and> n \<le> 222))"

definition is_lower :: "char \<Rightarrow> bool" where
  "is_lower c =
     (let n = (of_char c :: nat)
      in (97 \<le> n \<and> n \<le> 122) \<or> n = 170 \<or> n = 181 \<or> n = 186
         \<or> (223 \<le> n \<and> n \<le> 246) \<or> (248 \<le> n \<and> n \<le> 255))"

text \<open>\<open>s.isascii()\<close>, \<open>s.isspace()\<close> and \<open>s.isupper()\<close>.\<close>

definition str_isascii :: "string \<Rightarrow> bool" where
  "str_isascii s = list_all (\<lambda>c. (of_char c :: nat) < 128) s"

definition str_isspace :: "string \<Rightarrow> bool" where
  "str_isspace s = (s \<noteq> [] \<and> list_all is_space s)"

definition str_isupper :: "string \<Rightarrow> bool" where
  "str_isupper s = (list_ex is_upper s \<and> list_all (\<lambda>c. \<not> is_lower c) s)"

text \<open>\<open>s.strip(chars)\<close>, \<open>s.rstrip()\<close>, \<open>s.startswith(p)\<close>, \<open>s.endswith(p)\<close>, \<open>s[-2:]\<close>.\<close>

definition str_strip :: "string \<Rightarrow> string \<Rightarrow> string" where
  "str_strip chars s =
     rev (dropWhile (\<lambda>c. c \<in> set chars) (rev (dropWhile (\<lambda>c. c \<in> set chars) s)))"

definition str_rstrip :: "string \<Rightarrow> string" where
  "str_rstrip s = rev (dropWhile is_space (rev s))"

definition startswith :: "string \<Rightarrow> string \<Rightarrow> bool" where
  "startswith s p = prefix p s"

definition startswith_any :: "string \<Rightarrow> string list \<Rightarrow> bool" where
  "startswith_any s ps = list_ex (startswith s) ps"

definition endswith :: "string \<Rightarrow> string \<Rightarrow> bool" where
  "endswith s p = suffix p s"

definition last_two :: "string \<Rightarrow> string" where
  "last_two s = drop (length s - 2) s"

text \<open>
  \<open>s.split(sep)\<close> for a non-empty separator: the occurrences of \<open>sep\<close> are found from
  the left and do not overlap; the result always has at least one element. The second
  argument accumulates the current piece.
\<close>

function split_from :: "string \<Rightarrow> string \<Rightarrow> string \<Rightarrow> string list" where
  "split_from sep acc [] = [acc]"
| "split_from sep acc (c # cs) =
     (if sep \<noteq> [] \<and> prefix sep (c # cs)
      then acc # split_from sep [] (drop (length sep) (c # cs))
      else split_from sep (acc @ [c]) cs)"
  by pat_completeness auto
termination
  by (relation "measure (\<lambda>(sep, acc, s). length s)") auto

definition str_split :: "string \<Rightarrow> string \<Rightarrow> string list" where
  "str_split s sep = split_from sep [] s"

text \<open>\<open>sep.join(xs)\<close>.\<close>

fun str_join :: "string \<Rightarrow> string list \<Rightarrow> string" where
  "str_join sep [] = []"
| "str_join sep [x] = x"
| "str_join sep (x # y # ys) = x @ sep @ str_join sep (y # ys)"

text \<open>
  The two lines every line rule starts with:
  \<^verbatim>\<open>temp = line.rstrip().split('","'); temp = [item.strip('"') for item in temp]\<close>
\<close>

definition split_fields :: "string \<Rightarrow> string list" where
  "split_fields line = map (str_strip [dq]) (str_split (str_rstrip line) field_sep)"

section \<open>The error log\<close>

text \<open>
  An error is the dictionary \<open>{'line': .., 'group': .., 'desc': ..}\<close>; the line is a number
  or the placeholder \<open>'-'\<close>. The log \<open>ags_errors\<close> is a Python dict from rule names to
  lists of errors; it keeps its keys in insertion order, so it is an association list.
\<close>

datatype lineno = Line int | NoLine

record error_record =
  err_line :: lineno
  err_group :: string
  err_desc :: string

type_synonym ags_errors = "(string \<times> error_record list) list"

text \<open>
  \<open>ags_errors[rule].append(e)\<close>, and on \<open>KeyError\<close> \<open>ags_errors[rule] = []\<close> followed by
  the same append: the new key goes to the end of the dict.
\<close>

fun dict_append :: "string \<Rightarrow> error_record \<Rightarrow> ags_errors \<Rightarrow> ags_errors" where
  "dict_append rule e [] = [(rule, [e])]"
| "dict_append rule e ((k, v) # rest) =
     (if k = rule then (k, v @ [e]) # rest else (k, v) # dict_append rule e rest)"

definition add_error_msg ::
  "ags_errors \<Rightarrow> string \<Rightarrow> lineno \<Rightarrow> string \<Rightarrow> string \<Rightarrow> ags_errors" where
  "add_error_msg ags_errors rule line grp desc =
     dict_append rule \<lparr>err_line = line, err_group = grp, err_desc = desc\<rparr> ags_errors"

section \<open>Line rules\<close>

definition rule_1 :: "string \<Rightarrow> int \<Rightarrow> ags_errors \<Rightarrow> ags_errors" where
  "rule_1 line line_number ags_errors =
     (if \<not> str_isascii line
      then add_error_msg ags_errors ''Rule 1'' (Line line_number) '''' ''Has Non-ASCII character(s).''
      else ags_errors)"

definition rule_2a :: "string \<Rightarrow> int \<Rightarrow> ags_errors \<Rightarrow> ags_errors" where
  "rule_2a line line_number ags_errors =
     (if last_two line \<noteq> [cr, lf]
      then add_error_msg ags_errors ''Rule 2a'' (Line line_number) ''''
             ''Is not terminated by <CR> and <LF> characters.''
      else ags_errors)"

definition rule_2c :: "string \<Rightarrow> int \<Rightarrow> ags_errors \<Rightarrow> ags_errors" where
  "rule_2c line line_number ags_errors =
     (if startswith (str_strip [dq] line) ''HEADING''
      then (let temp = split_fields line
            in if length temp \<noteq> card (set temp)
               then add_error_msg ags_errors ''Rule 2c'' (Line line_number) ''''
                      ''HEADER row has duplicate fields.''
               else ags_errors)
      else ags_errors)"

definition rule_3 :: "string \<Rightarrow> int \<Rightarrow> ags_errors \<Rightarrow> ags_errors" where
  "rule_3 line line_number ags_errors =
     (if \<not> str_isspace line
      then (let temp = split_fields line
            in if hd temp \<notin> set [''GROUP'', ''HEADING'', ''TYPE'', ''UNIT'', ''DATA'']
               then add_error_msg ags_errors ''Rule 3'' (Line line_number) ''''
                      ''Does not start with a valid data descriptor.''
               else ags_errors)
      else ags_errors)"

definition rule_4a :: "string \<Rightarrow> int \<Rightarrow> ags_errors \<Rightarrow> ags_errors" where
  "rule_4a line line_number ags_errors =
     (if startswith line ([dq] @ ''GROUP'' @ [dq])
      then (let temp = split_fields line
            in if length temp > 2
               then add_error_msg ags_errors ''Rule 4a'' (Line line_number) (temp ! 1)
                      ''GROUP row has more than one field.''
               else if length temp < 2
               then add_error_msg ags_errors ''Rule 4a'' (Line line_number) ''''
                      ''GROUP row is malformed.''
               else ags_errors)
      else ags_errors)"

text \<open>
  Rule 4b reads the log: the record \<open>Headings row missing.\<close> is added only if the list
  under \<open>'Rule 4b'\<close> has none for the group yet (or the key is absent: \<open>KeyError\<close>).
\<close>

definition is_headings_missing :: "string \<Rightarrow> error_record \<Rightarrow> bool" where
  "is_headings_missing grp d = (err_group d = grp \<and> err_desc d = ''Headings row missing.'')"

definition rule_4b :: "string \<Rightarrow> int \<Rightarrow> string \<Rightarrow> string list \<Rightarrow> ags_errors \<Rightarrow> ags_errors" where
  "rule_4b line line_number grp headings ags_errors =
     (if startswith_any (str_strip [dq] line) [''UNIT'', ''TYPE'', ''DATA'']
      then (let temp = split_fields line
            in if length headings = 0
               then (case map_of ags_errors ''Rule 4b'' of
                       Some ds \<Rightarrow>
                         if \<not> list_ex (is_headings_missing grp) ds
                         then add_error_msg ags_errors ''Rule 4b'' NoLine grp ''Headings row missing.''
                         else ags_errors
                     | None \<Rightarrow>
                         add_error_msg ags_errors ''Rule 4b'' NoLine grp ''Headings row missing.'')
               else if length temp \<noteq> length headings
               then add_error_msg ags_errors ''Rule 4b'' (Line line_number) grp
                      ''Number of fields does not match the HEADING row.''
               else ags_errors)
      else ags_errors)"

definition rule_5 :: "string \<Rightarrow> int \<Rightarrow> ags_errors \<Rightarrow> ags_errors" where
  "rule_5 line line_number ags_errors =
     (if \<not> str_isspace line
      then (if \<not> startswith line [dq] \<or> \<not> endswith (str_strip [cr, lf] line) [dq]
            then add_error_msg ags_errors ''Rule 5'' (Line line_number) ''''
                   ''Contains fields that are not enclosed in double quotes.''
            else if startswith_any (str_strip [dq] line) [''HEADING'', ''UNIT'', ''TYPE'']
            then (if length (str_split line field_sep) \<noteq> length (str_split line '','')
                  then add_error_msg ags_errors ''Rule 5'' (Line line_number) ''''
                         ''Contains fields that are not enclosed in double quotes.''
                  else ags_errors)
            else ags_errors)
      else if line = [cr, lf] \<or> line = [lf]
      then ags_errors
      else add_error_msg ags_errors ''Rule 5'' (Line line_number) '''' ''Contains only spaces.'')"

definition rule_6 :: "string \<Rightarrow> int \<Rightarrow> ags_errors \<Rightarrow> ags_errors" where
  "rule_6 line line_number ags_errors = ags_errors"

definition rule_19 :: "string \<Rightarrow> int \<Rightarrow> ags_errors \<Rightarrow> ags_errors" where
  "rule_19 line line_number ags_errors =
     (if startswith (str_strip [dq] line) ''GROUP''
      then (let temp = split_fields line
            in if length temp \<ge> 2
               then (if length (temp ! 1) \<noteq> 4 \<or> \<not> str_isupper (temp ! 1)
                     then add_error_msg ags_errors ''Rule 19'' (Line line_number) (temp ! 1)
                            ''GROUP name should consist of four uppercase letters.''
                     else ags_errors)
               else ags_errors)
      else ags_errors)"

text \<open>The body of the loop \<open>for item in temp[1:]\<close> of Rule 19a.\<close>

definition rule_19a_item :: "int \<Rightarrow> string \<Rightarrow> string \<Rightarrow> ags_errors \<Rightarrow> ags_errors" where
  "rule_19a_item line_number grp item ags_errors =
     (if \<not> str_isupper item \<or> length item > 9
      then add_error_msg ags_errors ''Rule 19a'' (Line line_number) grp
             (''Heading '' @ item @ '' should be uppercase and limited to 9 character in length.'')
      else ags_errors)"

definition rule_19a :: "string \<Rightarrow> int \<Rightarrow> string \<Rightarrow> ags_errors \<Rightarrow> ags_errors" where
  "rule_19a line line_number grp ags_errors =
     (if startswith (str_strip [dq] line) ''HEADING''
      then (let temp = split_fields line
            in if length temp \<ge> 2
               then foldl (\<lambda>errs item. rule_19a_item line_number grp item errs) ags_errors (tl temp)
               else add_error_msg ags_errors ''Rule 19a'' (Line line_number) grp
                      ''Headings row does not seem to have any fields.'')
      else ags_errors)"

text \<open>
  The body of the loop of Rule 19b. \<open>item.split('_')[0]\<close> always exists; the condition
  is an \<open>or\<close>, so \<open>item.split('_')[1]\<close> is read, and can raise \<open>IndexError\<close>, only when
  the first piece has exactly four characters.
\<close>

definition rule_19b_item :: "int \<Rightarrow> string \<Rightarrow> string \<Rightarrow> ags_errors \<Rightarrow> ags_errors" where
  "rule_19b_item line_number grp item ags_errors =
     (let pieces = str_split item ''_''
      in if length (hd pieces) \<noteq> 4
         then add_error_msg ags_errors ''Rule 19b'' (Line line_number) grp
                (''Heading '' @ item @
                 '' should consist of a 4 charater group name and a field name of upto 4 characters.'')
         else if length pieces < 2
         then add_error_msg ags_errors ''Rule 19b'' (Line line_number) grp
                (''Heading '' @ item @
                 '' should consist of group name and field name separated by '' @ [dq] @ ''_'' @ [dq] @ ''.'')
         else if length (pieces ! 1) > 4
         then add_error_msg ags_errors ''Rule 19b'' (Line line_number) grp
                (''Heading '' @ item @
                 '' should consist of a 4 charater group name and a field name of upto 4 characters.'')
         else ags_errors)"

definition rule_19b :: "string \<Rightarrow> int \<Rightarrow> string \<Rightarrow> ags_errors \<Rightarrow> ags_errors" where
  "rule_19b line line_number grp ags_errors =
     (if startswith (str_strip [dq] line) ''HEADING''
      then (let temp = split_fields line
            in if length temp \<ge> 2
               then foldl (\<lambda>errs item. rule_19b_item line_number grp item errs) ags_errors (tl temp)
               else ags_errors)
      else ags_errors)"

section \<open>Exceptions and loops\<close>

text \<open>
  The Python exceptions that the validators can raise. A function that can raise returns
  \<open>exn + 'a\<close>; a validator, which has written to the log before it raises, returns the
  exception (if any) together with the state it has reached.
\<close>

datatype exn = KeyError | IndexError | AttributeError | ValueError | UnboundLocalError | SystemExit

text \<open>A \<open>for\<close> loop whose body can raise: the loop stops at the first exception.\<close>

fun for_each :: "('a \<Rightarrow> 's \<Rightarrow> exn option \<times> 's) \<Rightarrow> 'a list \<Rightarrow> 's \<Rightarrow> exn option \<times> 's" where
  "for_each body [] s = (None, s)"
| "for_each body (x # xs) s =
     (case body x s of
        (None, s') \<Rightarrow> for_each body xs s'
      | (Some e, s') \<Rightarrow> (Some e, s'))"

section \<open>Data frames\<close>

text \<open>
  A pandas \<open>DataFrame\<close>: named columns and rows of cells, each row with its index
  label. The validators use no other part of a frame. The tables that the reader returns
  have string cells. A cell of the merged dictionary is a string or \<open>NaN\<close> (\<open>None\<close>):
  \<open>pandas.concat\<close> fills the columns that a \<open>DICT\<close> table does not have with \<open>NaN\<close>,
  which is equal to no string.
\<close>

record 'c frame =
  df_columns :: "string list"
  df_rows :: "(int \<times> 'c list) list"

type_synonym dataframe = "string frame"

type_synonym dictionary = "string option frame"

type_synonym tables = "(string \<times> dataframe) list"

type_synonym headings = "(string \<times> string list) list"

text \<open>\<open>DataFrame()\<close>.\<close>

definition empty_df :: "'c frame" where
  "empty_df = \<lparr>df_columns = [], df_rows = []\<rparr>"

text \<open>
  The cell of a row under a column name that the frame has (the row lists its cells in
  column order).
\<close>

definition cell :: "string list \<Rightarrow> 'c list \<Rightarrow> string \<Rightarrow> 'c" where
  "cell cols row c = the (map_of (zip cols row) c)"

text \<open>\<open>df[c].tolist()\<close>; \<open>None\<close> when the frame has no such column.\<close>

definition column :: "'c frame \<Rightarrow> string \<Rightarrow> 'c list option" where
  "column df c =
     (if c \<in> set (df_columns df)
      then Some (map (\<lambda>r. cell (df_columns df) (snd r) c) (df_rows df))
      else None)"

text \<open>\<open>row[names].tolist()\<close> for a row of the frame.\<close>

definition row_values :: "'c frame \<Rightarrow> 'c list \<Rightarrow> string list \<Rightarrow> 'c list" where
  "row_values df row names = map (cell (df_columns df) row) names"

text \<open>Boolean indexing: the elements at which the mask is true.\<close>

definition select :: "bool list \<Rightarrow> 'a list \<Rightarrow> 'a list" where
  "select msk xs = map snd (filter fst (zip msk xs))"

text \<open>\<open>df.reset_index(drop=True, inplace=True)\<close>: the rows are labelled from zero.\<close>

definition reset_index :: "'c frame \<Rightarrow> 'c frame" where
  "reset_index df =
     df\<lparr>df_rows := zip (map int [0..<length (df_rows df)]) (map snd (df_rows df))\<rparr>"

text \<open>\<open>df[c] = values\<close>.\<close>

definition set_column :: "'c frame \<Rightarrow> string \<Rightarrow> 'c list \<Rightarrow> 'c frame" where
  "set_column df c values =
     df\<lparr>df_rows :=
          map (\<lambda>(r, v). (fst r, map (\<lambda>(c', x). if c' = c then v else x) (zip (df_columns df) (snd r))))
              (zip (df_rows df) values)\<rparr>"

text \<open>
  \<open>pandas.concat([master, d])\<close> for the dictionary \<open>master\<close> and a table \<open>d\<close> of the
  reader: the columns of \<open>master\<close> followed by the new columns of \<open>d\<close>, the rows of
  \<open>master\<close> followed by the rows of \<open>d\<close> with their labels. A row gets \<open>NaN\<close> in
  the columns that its frame does not have.
\<close>

definition concat_df :: "dictionary \<Rightarrow> dataframe \<Rightarrow> dictionary" where
  "concat_df a b =
     (let cols = df_columns a @ filter (\<lambda>c. c \<notin> set (df_columns a)) (df_columns b)
      in \<lparr>df_columns = cols,
          df_rows =
            map (\<lambda>r. (fst r, map (\<lambda>c. case map_of (zip (df_columns a) (snd r)) c of
                                       Some v \<Rightarrow> v | None \<Rightarrow> None) cols)) (df_rows a)
            @ map (\<lambda>r. (fst r, map (\<lambda>c. map_of (zip (df_columns b) (snd r)) c) cols)) (df_rows b)\<rparr>)"

text \<open>
  \<open>df.duplicated(subset, keep=False)\<close>: the mask of the rows whose cells under \<open>subset\<close>
  occur in more than one row. \<open>KeyError\<close> when a column of \<open>subset\<close> is missing.
\<close>

definition duplicated :: "'c frame \<Rightarrow> string list \<Rightarrow> exn + bool list" where
  "duplicated df names =
     (if set names \<subseteq> set (df_columns df)
      then (let keys = map (\<lambda>r. row_values df (snd r) names) (df_rows df)
            in Inr (map (\<lambda>k. count_list keys k > 1) keys))
      else Inl KeyError)"

text \<open>
  \<open>df.drop_duplicates(subset, keep='first', inplace=True)\<close>: a row is dropped when an
  earlier row has the same cells under \<open>subset\<close> (\<open>NaN\<close> counts as equal to \<open>NaN\<close>
  here); \<open>seen\<close> holds the keys met so far.
\<close>

fun keep_first :: "('a \<Rightarrow> 'k) \<Rightarrow> 'k list \<Rightarrow> 'a list \<Rightarrow> 'a list" where
  "keep_first key seen [] = []"
| "keep_first key seen (r # rs) =
     (if key r \<in> set seen then keep_first key seen rs
      else r # keep_first key (key r # seen) rs)"

definition drop_duplicates :: "string list \<Rightarrow> 'c frame \<Rightarrow> exn + 'c frame" where
  "drop_duplicates names df =
     (if set names \<subseteq> set (df_columns df)
      then Inr (df\<lparr>df_rows := keep_first (\<lambda>r. row_values df (snd r) names) [] (df_rows df)\<rparr>)
      else Inl KeyError)"

section \<open>The dictionary merger\<close>

text \<open>
  \<open>input_files\<close> is the list of files, each given by the tables that the reader
  \<open>AGS4_to_dataframe\<close> returns for it. The loop concatenates the \<open>DICT\<close> tables; a file
  without one raises \<open>KeyError\<close>, which is caught (a warning is printed).
\<close>

fun concat_DICT :: "tables list \<Rightarrow> dictionary \<Rightarrow> dictionary" where
  "concat_DICT [] master_DICT = master_DICT"
| "concat_DICT (tables # files) master_DICT =
     (case map_of tables ''DICT'' of
        Some d \<Rightarrow> concat_DICT files (concat_df master_DICT d)
      | None \<Rightarrow> concat_DICT files master_DICT)"

definition dict_key_columns :: "string list" where
  "dict_key_columns = [''HEADING'', ''DICT_TYPE'', ''DICT_GRP'', ''DICT_HDNG'']"

text \<open>\<open>sys.exit()\<close> raises \<open>SystemExit\<close>.\<close>

definition combine_DICT_tables :: "tables list \<Rightarrow> exn + dictionary" where
  "combine_DICT_tables input_files =
     (let master_DICT = concat_DICT input_files empty_df
      in if length (df_rows master_DICT) = 0 then Inl SystemExit
         else drop_duplicates dict_key_columns master_DICT)"

section \<open>Reading the dictionary\<close>

text \<open>
  \<open>dictionary.loc[dictionary.DICT_GRP == key, 'DICT_HDNG'].tolist()\<close>. An attribute that
  is not a column raises \<open>AttributeError\<close>, a missing column in \<open>loc\<close> raises \<open>KeyError\<close>.
  The list can hold \<open>NaN\<close>.
\<close>

definition reference_headings :: "dictionary \<Rightarrow> string \<Rightarrow> exn + string option list" where
  "reference_headings dictionary key =
     (case column dictionary ''DICT_GRP'' of
        None \<Rightarrow> Inl AttributeError
      | Some gs \<Rightarrow>
          (case column dictionary ''DICT_HDNG'' of
             None \<Rightarrow> Inl KeyError
           | Some hs \<Rightarrow> Inr (select (map (\<lambda>g. g = Some key) gs) hs)))"

text \<open>
  \<open>s.str.contains(word, case=False)\<close> for a lower-case ASCII word: the word occurs in
  the string, letters compared without case. The result for a \<open>NaN\<close> cell is \<open>NaN\<close>,
  which \<open>&\<close> with a Boolean column turns into \<open>False\<close>.
\<close>

definition ascii_lower :: "char \<Rightarrow> char" where
  "ascii_lower c =
     (let n = (of_char c :: nat) in if 65 \<le> n \<and> n \<le> 90 then char_of (n + 32) else c)"

definition contains_nocase :: "string \<Rightarrow> string \<Rightarrow> bool" where
  "contains_nocase s word = sublist word (map ascii_lower s)"

definition cell_contains :: "string option \<Rightarrow> string \<Rightarrow> bool" where
  "cell_contains c word = (case c of None \<Rightarrow> False | Some s \<Rightarrow> contains_nocase s word)"

text \<open>
  \<open>dictionary.DICT_GRP == grp\<close> for one cell of the column, where \<open>grp\<close> is a group
  name or a cell read from the dictionary: \<open>NaN\<close> is equal to nothing, not even to \<open>NaN\<close>.
\<close>

definition cell_equals :: "string option \<Rightarrow> string option \<Rightarrow> bool" where
  "cell_equals c grp = (case c of None \<Rightarrow> False | Some s \<Rightarrow> grp = Some s)"

text \<open>A cell in an f-string: \<open>NaN\<close> is printed as \<open>nan\<close>.\<close>

definition show_cell :: "string option \<Rightarrow> string" where
  "show_cell c = (case c of None \<Rightarrow> ''nan'' | Some s \<Rightarrow> s)"

text \<open>
  The headings of a group whose status contains a word:
  \<^verbatim>\<open>mask = (dictionary.DICT_GRP == group) & (dictionary.DICT_STAT.str.contains(word, case=False))\<close>
  \<^verbatim>\<open>dictionary.loc[mask, 'DICT_HDNG'].tolist()\<close>
\<close>

definition status_fields :: "dictionary \<Rightarrow> string option \<Rightarrow> string \<Rightarrow> exn + string option list" where
  "status_fields dictionary grp word =
     (case column dictionary ''DICT_GRP'' of
        None \<Rightarrow> Inl AttributeError
      | Some gs \<Rightarrow>
          (case column dictionary ''DICT_STAT'' of
             None \<Rightarrow> Inl AttributeError
           | Some ss \<Rightarrow>
               (case column dictionary ''DICT_HDNG'' of
                  None \<Rightarrow> Inl KeyError
                | Some hs \<Rightarrow>
                    Inr (select (map (\<lambda>(g, s). cell_equals g grp \<and> cell_contains s word) (zip gs ss)) hs))))"

section \<open>Group rules\<close>

text \<open>
  Rules 2 and 2b re-index every table in place, so they return the tables as well. The
  other rules only read the tables (or copies of them) and return the log.
\<close>

fun rule_2 :: "tables \<Rightarrow> headings \<Rightarrow> ags_errors \<Rightarrow> exn option \<times> tables \<times> ags_errors" where
  "rule_2 [] headings ags_errors = (None, [], ags_errors)"
| "rule_2 ((key, df) # rest) headings ags_errors =
     (let df' = reset_index df
      in case column df' ''HEADING'' of
           None \<Rightarrow> (Some KeyError, (key, df') # rest, ags_errors)
         | Some rowtypes \<Rightarrow>
             (case rule_2 rest headings
                     (if ''DATA'' \<notin> set rowtypes
                      then add_error_msg ags_errors ''Rule 2'' NoLine key ''No DATA rows in group.''
                      else ags_errors) of
                (e, rest', errs') \<Rightarrow> (e, (key, df') # rest', errs')))"

text \<open>
  The checks of Rule 2b on one re-indexed table. \<open>loc[0, 'HEADING']\<close> is read only when
  a \<open>UNIT\<close> row exists, so row 0 exists; \<open>loc[1, 'HEADING']\<close> raises \<open>KeyError\<close> on a table
  of one row.
\<close>

definition rule_2b_checks :: "string \<Rightarrow> string list \<Rightarrow> ags_errors \<Rightarrow> exn option \<times> ags_errors" where
  "rule_2b_checks key rowtypes ags_errors =
     (let errs1 =
            (if ''UNIT'' \<notin> set rowtypes
             then add_error_msg ags_errors ''Rule 2b'' NoLine key ''UNIT row missing from group.''
             else if rowtypes ! 0 \<noteq> ''UNIT''
             then add_error_msg ags_errors ''Rule 2b'' NoLine key
                    ''UNIT row is misplaced. It should be immediately below the HEADING row.''
             else ags_errors)
      in if ''TYPE'' \<notin> set rowtypes
         then (None, add_error_msg errs1 ''Rule 2b'' NoLine key ''TYPE row missing from group.'')
         else if length rowtypes < 2 then (Some KeyError, errs1)
         else if rowtypes ! 1 \<noteq> ''TYPE''
         then (None, add_error_msg errs1 ''Rule 2b'' NoLine key
                       ''TYPE row is misplaced. It should be immediately below the UNIT row.'')
         else (None, errs1))"

fun rule_2b :: "tables \<Rightarrow> headings \<Rightarrow> ags_errors \<Rightarrow> exn option \<times> tables \<times> ags_errors" where
  "rule_2b [] headings ags_errors = (None, [], ags_errors)"
| "rule_2b ((key, df) # rest) headings ags_errors =
     (let df' = reset_index df
      in case column df' ''HEADING'' of
           None \<Rightarrow> (Some KeyError, (key, df') # rest, ags_errors)
         | Some rowtypes \<Rightarrow>
             (case rule_2b_checks key rowtypes ags_errors of
                (Some e, errs1) \<Rightarrow> (Some e, (key, df') # rest, errs1)
              | (None, errs1) \<Rightarrow>
                  (case rule_2b rest headings errs1 of
                     (e, rest', errs') \<Rightarrow> (e, (key, df') # rest', errs'))))"

text \<open>
  Rule 7. The loop
  \<^verbatim>\<open>for item in reference_headings_list: if item not in headings[key]: temp.remove(item)\<close>
  removes the first occurrence of the item from \<open>temp\<close>; \<open>list.remove\<close> raises
  \<open>ValueError\<close> when there is none.
\<close>

fun drop_unused ::
  "string list \<Rightarrow> string option list \<Rightarrow> string option list \<Rightarrow> exn + string option list" where
  "drop_unused hs [] temp = Inr temp"
| "drop_unused hs (item # items) temp =
     (if item \<notin> set (map Some hs)
      then (if item \<in> set temp then drop_unused hs items (remove1 item temp) else Inl ValueError)
      else drop_unused hs items temp)"

definition rule_7_group :: "dictionary \<Rightarrow> string \<times> string list \<Rightarrow> ags_errors \<Rightarrow> exn option \<times> ags_errors" where
  "rule_7_group dictionary kh ags_errors =
     (case kh of (key, hs) \<Rightarrow>
        (case reference_headings dictionary key of
           Inl e \<Rightarrow> (Some e, ags_errors)
         | Inr reference_headings_list \<Rightarrow>
             if set (map Some (tl hs)) \<subseteq> set reference_headings_list
             then (case drop_unused hs reference_headings_list reference_headings_list of
                     Inl e \<Rightarrow> (Some e, ags_errors)
                   | Inr temp \<Rightarrow>
                       if temp \<noteq> map Some (tl hs)
                       then (None, add_error_msg ags_errors ''Rule 7'' NoLine key
                               (''HEADING names in '' @ key @
                                '' are not in the order that they are defined in the DICT table and the standard dictionary.''))
                       else (None, ags_errors))
             else (None, add_error_msg ags_errors ''Rule 7'' NoLine key
                     ''Order of headings could not be checked as one or more fields were not found in either the DICT table or the standard dictionary. Check error log under Rule 9.'')))"

definition rule_7 :: "headings \<Rightarrow> dictionary \<Rightarrow> ags_errors \<Rightarrow> exn option \<times> ags_errors" where
  "rule_7 headings dictionary ags_errors = for_each (rule_7_group dictionary) headings ags_errors"

definition rule_9_group :: "dictionary \<Rightarrow> string \<times> string list \<Rightarrow> ags_errors \<Rightarrow> exn option \<times> ags_errors" where
  "rule_9_group dictionary kh ags_errors =
     (case kh of (key, hs) \<Rightarrow>
        (case reference_headings dictionary key of
           Inl e \<Rightarrow> (Some e, ags_errors)
         | Inr reference_headings_list \<Rightarrow>
             (None, foldl (\<lambda>errs item.
                      if Some item \<notin> set reference_headings_list
                      then add_error_msg errs ''Rule 9'' NoLine key
                             (item @ '' not found in DICT table or the standard AGS4 dictionary.'')
                      else errs) ags_errors (tl hs))))"

definition rule_9 :: "headings \<Rightarrow> dictionary \<Rightarrow> ags_errors \<Rightarrow> exn option \<times> ags_errors" where
  "rule_9 headings dictionary ags_errors = for_each (rule_9_group dictionary) headings ags_errors"

text \<open>
  What the running interpreter and the installed pandas decide: the order in which a
  \<open>set\<close> built from a list is iterated, and the exception that \<open>merge\<close> raises for an
  empty list of key columns.
\<close>

record runtime =
  set_order :: "string list \<Rightarrow> string list"
  merge_no_keys :: exn

text \<open>
  Rule 10a, the body of \<open>for group in tables\<close>. \<open>headings[group]\<close> raises \<open>KeyError\<close>
  before anything is added. When the key fields are among the headings, none of them is
  \<open>NaN\<close>.
\<close>

definition rule_10a_group ::
  "headings \<Rightarrow> dictionary \<Rightarrow> string \<times> dataframe \<Rightarrow> ags_errors \<Rightarrow> exn option \<times> ags_errors" where
  "rule_10a_group headings dictionary gd ags_errors =
     (case gd of (grp, df) \<Rightarrow>
        (case status_fields dictionary (Some grp) ''key'' of
           Inl e \<Rightarrow> (Some e, ags_errors)
         | Inr key_fields \<Rightarrow>
             (case map_of headings grp of
                None \<Rightarrow> (Some KeyError, ags_errors)
              | Some hs \<Rightarrow>
                  (let errs1 = foldl (\<lambda>errs heading.
                                 if heading \<notin> set (map Some hs)
                                 then add_error_msg errs ''Rule 10a'' NoLine grp
                                        (''Key field '' @ show_cell heading @ '' not found.'')
                                 else errs) ags_errors key_fields
                   in if set key_fields \<subseteq> set (map Some hs)
                      then (let key_fields' = ''HEADING'' # map the key_fields
                            in case duplicated df key_fields' of
                                 Inl e \<Rightarrow> (Some e, errs1)
                               | Inr msk \<Rightarrow>
                                   (None, foldl (\<lambda>errs row.
                                            add_error_msg errs ''Rule 10a'' NoLine grp
                                              (''Duplicate key field combination: '' @
                                               str_join ''|'' (row_values df row key_fields')))
                                          errs1 (select msk (map snd (df_rows df)))))
                      else (None, errs1)))))"

definition rule_10a :: "tables \<Rightarrow> headings \<Rightarrow> dictionary \<Rightarrow> ags_errors \<Rightarrow> exn option \<times> ags_errors" where
  "rule_10a tables headings dictionary ags_errors =
     for_each (rule_10a_group headings dictionary) tables ags_errors"

text \<open>
  Rule 10b. The regular expression \<open>^\s*$\<close> matches the strings that consist of white
  space only. The loop over the required headings works on \<open>df\<close>, the copy of the table.
\<close>

definition is_blank :: "string \<Rightarrow> bool" where
  "is_blank s = list_all is_space s"

definition rule_10b_heading ::
  "string \<Rightarrow> string \<Rightarrow> dataframe \<times> ags_errors \<Rightarrow> exn option \<times> (dataframe \<times> ags_errors)" where
  "rule_10b_heading grp heading st =
     (case st of (df, ags_errors) \<Rightarrow>
        (case column df ''HEADING'' of
           None \<Rightarrow> (Some KeyError, (df, ags_errors))
         | Some rowtypes \<Rightarrow>
             (case column df heading of
                None \<Rightarrow> (Some KeyError, (df, ags_errors))
              | Some vs \<Rightarrow>
                  (let msk = map (\<lambda>(t, v). t = ''DATA'' \<and> is_blank v) (zip rowtypes vs);
                       df' = set_column df heading (map (\<lambda>v. if is_blank v then ''???'' else v) vs);
                       missing_required_fields = select msk (map snd (df_rows df'))
                   in (None, (df', foldl (\<lambda>errs row.
                                     add_error_msg errs ''Rule 10b'' NoLine grp
                                       (''Empty REQUIRED fields: '' @ str_join ''|'' row))
                                   ags_errors missing_required_fields))))))"

text \<open>
  The body of \<open>for group in tables\<close>. The intersection
  \<open>set(required_fields).intersection(set(headings[group]))\<close> holds the headings of the
  group that are required fields; it has no \<open>NaN\<close>.
\<close>

definition rule_10b_group ::
  "runtime \<Rightarrow> headings \<Rightarrow> dictionary \<Rightarrow> string \<times> dataframe \<Rightarrow> ags_errors \<Rightarrow> exn option \<times> ags_errors" where
  "rule_10b_group rt headings dictionary gd ags_errors =
     (case gd of (grp, table) \<Rightarrow>
        (case status_fields dictionary (Some grp) ''required'' of
           Inl e \<Rightarrow> (Some e, ags_errors)
         | Inr required_fields \<Rightarrow>
             (case map_of headings grp of
                None \<Rightarrow> (Some KeyError, ags_errors)
              | Some hs \<Rightarrow>
                  (let errs1 = foldl (\<lambda>errs heading.
                                 if heading \<notin> set (map Some hs)
                                 then add_error_msg errs ''Rule 10b'' NoLine grp
                                        (''Required field '' @ show_cell heading @ '' not found.'')
                                 else errs) ags_errors required_fields;
                       df = table
                   in case for_each (rule_10b_heading grp)
                             (set_order rt (filter (\<lambda>h. Some h \<in> set required_fields) hs)) (df, errs1) of
                        (e, (df', errs2)) \<Rightarrow> (e, errs2)))))"

definition rule_10b ::
  "runtime \<Rightarrow> tables \<Rightarrow> headings \<Rightarrow> dictionary \<Rightarrow> ags_errors \<Rightarrow> exn option \<times> ags_errors" where
  "rule_10b rt tables headings dictionary ags_errors =
     for_each (rule_10b_group rt headings dictionary) tables ags_errors"

text \<open>
  Rule 10c.
  \<^verbatim>\<open>child_df.merge(parent_df, how='left', on=keys, indicator=True).query('_merge=="left_only"')\<close>
  keeps the rows of the child, in their order, whose cells under the keys are the cells of
  no parent row; the rule reads \<open>row[keys]\<close> of each. \<open>merge\<close> raises \<open>KeyError\<close> for a
  key that is not a column of both frames and \<open>ValueError\<close> when a frame already has a
  column \<open>_merge\<close>.
\<close>

definition orphan_rows :: "runtime \<Rightarrow> dataframe \<Rightarrow> dataframe \<Rightarrow> string list \<Rightarrow> exn + string list list" where
  "orphan_rows rt child_df parent_df keys =
     (if keys = [] then Inl (merge_no_keys rt)
      else if \<not> (set keys \<subseteq> set (df_columns child_df) \<and> set keys \<subseteq> set (df_columns parent_df))
      then Inl KeyError
      else if ''_merge'' \<in> set (df_columns child_df) \<union> set (df_columns parent_df)
      then Inl ValueError
      else (let parent_keys = map (\<lambda>r. row_values parent_df (snd r) keys) (df_rows parent_df)
            in Inr (filter (\<lambda>k. k \<notin> set parent_keys)
                      (map (\<lambda>r. row_values child_df (snd r) keys) (df_rows child_df)))))"

definition root_groups :: "string list" where
  "root_groups = [''PROJ'', ''TRAN'', ''ABBR'', ''DICT'', ''UNIT'', ''TYPE'', ''LOCA'']"

text \<open>
  The \<open>try\<close> block of Rule 10c for one group. The state carries the local variable
  \<open>parent_group\<close>, which is unbound (\<open>None\<close>) until the first assignment and keeps its
  value, a cell of the dictionary, from one group to the next. \<open>tables[parent_group]\<close>
  raises \<open>KeyError\<close> for \<open>NaN\<close>.
\<close>

definition rule_10c_try ::
  "runtime \<Rightarrow> tables \<Rightarrow> headings \<Rightarrow> dictionary \<Rightarrow> string \<Rightarrow> dataframe \<Rightarrow>
   string option option \<times> ags_errors \<Rightarrow> exn option \<times> (string option option \<times> ags_errors)" where
  "rule_10c_try rt tables headings dictionary grp table st =
     (case st of (bound, ags_errors) \<Rightarrow>
      (case column dictionary ''DICT_TYPE'' of
         None \<Rightarrow> (Some AttributeError, (bound, ags_errors))
       | Some tys \<Rightarrow>
      (case column dictionary ''DICT_GRP'' of
         None \<Rightarrow> (Some AttributeError, (bound, ags_errors))
       | Some gs \<Rightarrow>
      (case column dictionary ''DICT_PGRP'' of
         None \<Rightarrow> (Some KeyError, (bound, ags_errors))
       | Some ps \<Rightarrow>
      (case select (map (\<lambda>(t, g). t = Some ''GROUP'' \<and> g = Some grp) (zip tys gs)) ps of
         [] \<Rightarrow> (Some IndexError, (bound, ags_errors))
       | parent_group # _ \<Rightarrow>
           if parent_group = Some []
           then (None, (Some parent_group,
                   add_error_msg ags_errors ''Rule 10c'' NoLine grp ''Parent group left blank in dictionary.''))
           else
      (case status_fields dictionary parent_group ''key'' of
         Inl e \<Rightarrow> (Some e, (Some parent_group, ags_errors))
       | Inr parent_key_fields \<Rightarrow>
      (case (case parent_group of None \<Rightarrow> None | Some p \<Rightarrow> map_of tables p) of
         None \<Rightarrow> (Some KeyError, (Some parent_group, ags_errors))
       | Some parent_df \<Rightarrow>
      (let child_df = table;
           not_checked = (None, (Some parent_group,
                   add_error_msg ags_errors ''Rule 10c'' NoLine grp
                     (''Could not check parent entries due to missing key fields in '' @ grp @ '' or '' @
                      show_cell parent_group @ ''. Check error log under Rule 10a.'')))
       in case map_of headings grp of
            None \<Rightarrow> (Some KeyError, (Some parent_group, ags_errors))
          | Some hs \<Rightarrow>
              if set parent_key_fields \<subseteq> set (map Some hs)
              then (case (case parent_group of None \<Rightarrow> None | Some p \<Rightarrow> map_of headings p) of
                      None \<Rightarrow> (Some KeyError, (Some parent_group, ags_errors))
                    | Some phs \<Rightarrow>
                        if set parent_key_fields \<subseteq> set (map Some phs)
                        then (case orphan_rows rt child_df parent_df (map the parent_key_fields) of
                                Inl e \<Rightarrow> (Some e, (Some parent_group, ags_errors))
                              | Inr rows \<Rightarrow>
                                  (None, (Some parent_group,
                                     foldl (\<lambda>errs row.
                                        add_error_msg errs ''Rule 10a'' NoLine grp
                                          (''Parent entry for line not found in '' @ show_cell parent_group @ '': '' @
                                           str_join ''|'' row))
                                       ags_errors rows)))
                        else not_checked)
              else not_checked))))))))"

text \<open>
  The body of \<open>for group in tables\<close> with the two handlers. The message of the
  \<open>KeyError\<close> handler reads \<open>parent_group\<close>, which raises \<open>UnboundLocalError\<close> while the
  variable is unbound.
\<close>

definition rule_10c_group ::
  "runtime \<Rightarrow> tables \<Rightarrow> headings \<Rightarrow> dictionary \<Rightarrow> string \<times> dataframe \<Rightarrow>
   string option option \<times> ags_errors \<Rightarrow> exn option \<times> (string option option \<times> ags_errors)" where
  "rule_10c_group rt tables headings dictionary gd st =
     (case gd of (grp, table) \<Rightarrow>
        if grp \<in> set root_groups then (None, st)
        else (case rule_10c_try rt tables headings dictionary grp table st of
                (Some e, (bound, errs)) \<Rightarrow>
                  if e = IndexError
                  then (None, (bound, add_error_msg errs ''Rule 10c'' NoLine grp
                     ''Could not check parent entries since group definitions not found in standard dictionary or DICT table.''))
                  else if e = KeyError
                  then (case bound of
                          None \<Rightarrow> (Some UnboundLocalError, (bound, errs))
                        | Some parent_group \<Rightarrow>
                            (None, (bound, add_error_msg errs ''Rule 10c'' NoLine grp
                               (''Could not find parent group '' @ show_cell parent_group @ ''.''))))
                  else (Some e, (bound, errs))
              | (None, st') \<Rightarrow> (None, st')))"

definition rule_10c ::
  "runtime \<Rightarrow> tables \<Rightarrow> headings \<Rightarrow> dictionary \<Rightarrow> ags_errors \<Rightarrow> exn option \<times> ags_errors" where
  "rule_10c rt tables headings dictionary ags_errors =
     (case for_each (rule_10c_group rt tables headings dictionary) tables (None, ags_errors) of
        (e, (bound, errs)) \<Rightarrow> (e, errs))"

definition rule_12 :: "tables \<Rightarrow> headings \<Rightarrow> ags_errors \<Rightarrow> exn option \<times> ags_errors" where
  "rule_12 tables headings ags_errors = (None, ags_errors)"

text \<open>
  Rules 13 and 14: \<open>tables[name].loc[tables[name]['HEADING'] == 'DATA', :].shape[0]\<close> is
  the number of \<open>DATA\<close> rows.
\<close>

definition count_DATA :: "dataframe \<Rightarrow> exn + nat" where
  "count_DATA df =
     (case column df ''HEADING'' of
        None \<Rightarrow> Inl KeyError
      | Some rowtypes \<Rightarrow> Inr (length (filter (\<lambda>t. t = ''DATA'') rowtypes)))"

definition rule_13 :: "tables \<Rightarrow> headings \<Rightarrow> ags_errors \<Rightarrow> exn option \<times> ags_errors" where
  "rule_13 tables headings ags_errors =
     (case map_of tables ''PROJ'' of
        None \<Rightarrow> (None, add_error_msg ags_errors ''Rule 13'' NoLine ''PROJ'' ''PROJ table not found.'')
      | Some df \<Rightarrow>
          (case count_DATA df of
             Inl e \<Rightarrow> (Some e, ags_errors)
           | Inr n \<Rightarrow>
               if n < 1
               then (None, add_error_msg ags_errors ''Rule 13'' NoLine ''PROJ''
                             ''There should be at least one DATA row in the PROJ table.'')
               else if n > 1
               then (None, add_error_msg ags_errors ''Rule 13'' NoLine ''PROJ''
                             ''There should not be more than one DATA row in the PROJ table.'')
               else (None, ags_errors)))"

definition rule_14 :: "tables \<Rightarrow> headings \<Rightarrow> ags_errors \<Rightarrow> exn option \<times> ags_errors" where
  "rule_14 tables headings ags_errors =
     (case map_of tables ''TRAN'' of
        None \<Rightarrow> (None, add_error_msg ags_errors ''Rule 14'' NoLine ''TRAN'' ''TRAN table not found.'')
      | Some df \<Rightarrow>
          (case count_DATA df of
             Inl e \<Rightarrow> (Some e, ags_errors)
           | Inr n \<Rightarrow>
               if n < 1
               then (None, add_error_msg ags_errors ''Rule 14'' NoLine ''TRAN''
                             ''There should be at least one DATA row in the TRAN table.'')
               else if n > 1
               then (None, add_error_msg ags_errors ''Rule 14'' NoLine ''TRAN''
                             ''There should not be more than one DATA row in the TRAN table.'')
               else (None, ags_errors)))"

text \<open>
  Rules 15 and 17 collect the cells of the \<open>UNIT\<close> (or \<open>TYPE\<close>) rows of every table:
  \<^verbatim>\<open>unit_list += df.loc[df['HEADING'] == 'UNIT', :].values.flatten().tolist()\<close>
\<close>

fun cells_of_rows :: "string \<Rightarrow> tables \<Rightarrow> exn + string list" where
  "cells_of_rows rowtype [] = Inr []"
| "cells_of_rows rowtype ((grp, df) # rest) =
     (case column df ''HEADING'' of
        None \<Rightarrow> Inl KeyError
      | Some rowtypes \<Rightarrow>
          (case cells_of_rows rowtype rest of
             Inl e \<Rightarrow> Inl e
           | Inr cells \<Rightarrow>
               Inr (concat (select (map (\<lambda>t. t = rowtype) rowtypes) (map snd (df_rows df))) @ cells)))"

text \<open>
  \<open>frame.loc[frame['HEADING'] == 'DATA', name].to_list()\<close>, as the inner \<open>try\<close> blocks of
  Rules 15 and 17 read it.
\<close>

definition data_column :: "dataframe \<Rightarrow> string \<Rightarrow> exn + string list" where
  "data_column df name =
     (case column df ''HEADING'' of
        None \<Rightarrow> Inl KeyError
      | Some rowtypes \<Rightarrow>
          (case column df name of
             None \<Rightarrow> Inl KeyError
           | Some vs \<Rightarrow> Inr (select (map (\<lambda>t. t = ''DATA'') rowtypes) vs)))"

text \<open>
  In Rule 15 a \<open>KeyError\<close> of the collecting loop is caught by the outer handler, which
  reports the table as not found; the inner handler passes. The inner loop reads the
  \<open>UNIT\<close> table at its first entry, so it raises before anything is added, and not at
  all when the set is empty.
\<close>

definition rule_15 :: "runtime \<Rightarrow> tables \<Rightarrow> headings \<Rightarrow> ags_errors \<Rightarrow> exn option \<times> ags_errors" where
  "rule_15 rt tables headings ags_errors =
     (case map_of tables ''UNIT'' of
        None \<Rightarrow> (None, add_error_msg ags_errors ''Rule 15'' NoLine ''UNIT'' ''UNIT table not found.'')
      | Some UNIT \<Rightarrow>
          (case cells_of_rows ''UNIT'' tables of
             Inl e \<Rightarrow>
               if e = KeyError
               then (None, add_error_msg ags_errors ''Rule 15'' NoLine ''UNIT'' ''UNIT table not found.'')
               else (Some e, ags_errors)
           | Inr unit_list \<Rightarrow>
               if unit_list = [] then (None, ags_errors)
               else (case data_column UNIT ''UNIT_UNIT'' of
                       Inl e \<Rightarrow> if e = KeyError then (None, ags_errors) else (Some e, ags_errors)
                     | Inr units \<Rightarrow>
                         (None, foldl (\<lambda>errs entry.
                                  if entry \<notin> set units \<and> entry \<notin> set ['''', ''UNIT'']
                                  then add_error_msg errs ''Rule 15'' NoLine ''-''
                                         (''Unit '' @ [dq] @ entry @ [dq] @ '' not found in UNIT table.'')
                                  else errs)
                                ags_errors (set_order rt unit_list)))))"

definition rule_17 :: "runtime \<Rightarrow> tables \<Rightarrow> headings \<Rightarrow> dictionary \<Rightarrow> ags_errors \<Rightarrow> exn option \<times> ags_errors" where
  "rule_17 rt tables headings dictionary ags_errors =
     (case map_of tables ''TYPE'' of
        None \<Rightarrow> (None, add_error_msg ags_errors ''Rule 17'' NoLine ''TYPE'' ''TYPE table not found.'')
      | Some TYPE_df \<Rightarrow>
          (case cells_of_rows ''TYPE'' tables of
             Inl e \<Rightarrow>
               if e = KeyError
               then (None, add_error_msg ags_errors ''Rule 17'' NoLine ''TYPE'' ''TYPE table not found.'')
               else (Some e, ags_errors)
           | Inr type_list \<Rightarrow>
               if type_list = [] then (None, ags_errors)
               else (case data_column TYPE_df ''TYPE_TYPE'' of
                       Inl e \<Rightarrow> if e = KeyError then (None, ags_errors) else (Some e, ags_errors)
                     | Inr types \<Rightarrow>
                         (None, foldl (\<lambda>errs entry.
                                  if entry \<notin> set types \<and> entry \<notin> set [''TYPE'']
                                  then add_error_msg errs ''Rule 17'' NoLine ''-''
                                         (''Data type '' @ [dq] @ entry @ [dq] @ '' not found in TYPE table.'')
                                  else errs)
                                ags_errors (set_order rt type_list)))))"

text \<open>
  Rule 16. \<open>df.loc[df['HEADING'] == 'TYPE', heading].values[0] == 'PA'\<close> raises
  \<open>KeyError\<close> for a missing column and \<open>IndexError\<close> when the table has no \<open>TYPE\<close> row.
\<close>

definition is_PA :: "dataframe \<Rightarrow> string \<Rightarrow> exn + bool" where
  "is_PA df heading =
     (case column df ''HEADING'' of
        None \<Rightarrow> Inl KeyError
      | Some rowtypes \<Rightarrow>
          (case column df heading of
             None \<Rightarrow> Inl KeyError
           | Some vs \<Rightarrow>
               (case select (map (\<lambda>t. t = ''TYPE'') rowtypes) vs of
                  [] \<Rightarrow> Inl IndexError
                | v # _ \<Rightarrow> Inr (v = ''PA''))))"

text \<open>
  \<open>tables['TRAN'].loc[tables['TRAN']['HEADING'] == 'DATA', 'TRAN_RCON'].values[0]\<close>
\<close>

definition concatenator :: "tables \<Rightarrow> exn + string" where
  "concatenator tables =
     (case map_of tables ''TRAN'' of
        None \<Rightarrow> Inl KeyError
      | Some TRAN \<Rightarrow>
          (case data_column TRAN ''TRAN_RCON'' of
             Inl e \<Rightarrow> Inl e
           | Inr vs \<Rightarrow> (case vs of [] \<Rightarrow> Inl IndexError | v # _ \<Rightarrow> Inr v)))"

text \<open>
  The last \<open>try\<close> block of the loop: the codes of the heading are read from the \<open>ABBR\<close>
  table at the first entry (\<open>KeyError\<close> passes), and every entry that is neither a code
  nor empty is reported.
\<close>

definition check_entries ::
  "dataframe \<Rightarrow> string \<Rightarrow> string \<Rightarrow> string list \<Rightarrow> ags_errors \<Rightarrow> exn option \<times> ags_errors" where
  "check_entries ABBR grp heading entries ags_errors =
     (if entries = [] then (None, ags_errors)
      else (case column ABBR ''ABBR_HDNG'' of
              None \<Rightarrow> (None, ags_errors)
            | Some hdngs \<Rightarrow>
                (case column ABBR ''ABBR_CODE'' of
                   None \<Rightarrow> (None, ags_errors)
                 | Some codes \<Rightarrow>
                     (let declared = select (map (\<lambda>h. h = heading) hdngs) codes
                      in (None, foldl (\<lambda>errs entry.
                                  if entry \<notin> set declared \<and> entry \<notin> set ['''']
                                  then add_error_msg errs ''Rule 16'' NoLine grp
                                         ([dq] @ entry @ [dq] @ '' under '' @ heading @ '' in '' @ grp @
                                          '' not found in ABBR table.'')
                                  else errs)
                                ags_errors entries)))))"

text \<open>
  The body of \<open>for heading in headings[group]\<close>. \<open>entry.split(concatenator)\<close> raises
  \<open>ValueError\<close> for an empty separator; it is called only when there is an entry.
\<close>

definition rule_16_heading ::
  "runtime \<Rightarrow> tables \<Rightarrow> dataframe \<Rightarrow> string \<Rightarrow> dataframe \<Rightarrow> string \<Rightarrow> ags_errors \<Rightarrow>
   exn option \<times> ags_errors" where
  "rule_16_heading rt tables ABBR grp df heading ags_errors =
     (case is_PA df heading of
        Inl e \<Rightarrow> (Some e, ags_errors)
      | Inr pa \<Rightarrow>
          if \<not> pa then (None, ags_errors)
          else (case data_column df heading of
                  Inl e \<Rightarrow> (Some e, ags_errors)
                | Inr vs \<Rightarrow>
                    (let entries = (if vs = [] then [] else set_order rt vs)
                     in case concatenator tables of
                          Inl e \<Rightarrow>
                            if e = KeyError then check_entries ABBR grp heading entries ags_errors
                            else (Some e, ags_errors)
                        | Inr c \<Rightarrow>
                            if entries = [] then check_entries ABBR grp heading entries ags_errors
                            else if c = [] then (Some ValueError, ags_errors)
                            else check_entries ABBR grp heading
                                   (concat (map (\<lambda>entry. str_split entry c) entries)) ags_errors)))"

definition rule_16_group ::
  "runtime \<Rightarrow> tables \<Rightarrow> headings \<Rightarrow> dataframe \<Rightarrow> string \<times> dataframe \<Rightarrow> ags_errors \<Rightarrow>
   exn option \<times> ags_errors" where
  "rule_16_group rt tables headings ABBR gd ags_errors =
     (case gd of (grp, df) \<Rightarrow>
        (case map_of headings grp of
           None \<Rightarrow> (Some KeyError, ags_errors)
         | Some hs \<Rightarrow> for_each (rule_16_heading rt tables ABBR grp df) hs ags_errors))"

text \<open>
  The handler of the outer \<open>try\<close>: it looks for the first heading of type \<open>PA\<close>, reports
  the missing \<open>ABBR\<close> table once and returns. An exception raised in the handler is not
  caught.
\<close>

fun any_PA_heading :: "dataframe \<Rightarrow> string list \<Rightarrow> exn + bool" where
  "any_PA_heading df [] = Inr False"
| "any_PA_heading df (heading # rest) =
     (case is_PA df heading of
        Inl e \<Rightarrow> Inl e
      | Inr pa \<Rightarrow> if pa then Inr True else any_PA_heading df rest)"

fun any_PA :: "headings \<Rightarrow> tables \<Rightarrow> exn + bool" where
  "any_PA headings [] = Inr False"
| "any_PA headings ((grp, df) # rest) =
     (case map_of headings grp of
        None \<Rightarrow> Inl KeyError
      | Some hs \<Rightarrow>
          (case any_PA_heading df hs of
             Inl e \<Rightarrow> Inl e
           | Inr found \<Rightarrow> if found then Inr True else any_PA headings rest))"

definition rule_16 :: "runtime \<Rightarrow> tables \<Rightarrow> headings \<Rightarrow> dictionary \<Rightarrow> ags_errors \<Rightarrow> exn option \<times> ags_errors" where
  "rule_16 rt tables headings dictionary ags_errors =
     (case (case map_of tables ''ABBR'' of
              None \<Rightarrow> (Some KeyError, ags_errors)
            | Some ABBR \<Rightarrow> for_each (rule_16_group rt tables headings ABBR) tables ags_errors) of
        (None, errs) \<Rightarrow> (None, errs)
      | (Some e, errs) \<Rightarrow>
          if e = KeyError
          then (case any_PA headings tables of
                  Inl e' \<Rightarrow> (Some e', errs)
                | Inr found \<Rightarrow>
                    if found
                    then (None, add_error_msg errs ''Rule 16'' NoLine ''ABBR'' ''ABBR table not found.'')
                    else (None, errs))
          else (Some e, errs))"

definition rule_18 :: "tables \<Rightarrow> headings \<Rightarrow> ags_errors \<Rightarrow> exn option \<times> ags_errors" where
  "rule_18 tables headings ags_errors =
     (if ''DICT'' \<notin> set (map fst tables) \<and> ''Rule 9'' \<in> set (map fst ags_errors)
      then (None, add_error_msg ags_errors ''Rule 18'' NoLine ''DICT''
                    ''DICT table not found. See error log under Rule 9 for a list of non-standard headings that need to be defined in a DICT table.'')
      else (None, ags_errors))"

text \<open>
  Rule 19c. \<open>heading.split('_')[0]\<close> always exists; \<open>dictionary.DICT_HDNG\<close> is read only
  when the first piece is not the group name.
\<close>

definition rule_19c_heading :: "dictionary \<Rightarrow> string \<Rightarrow> string \<Rightarrow> ags_errors \<Rightarrow> exn option \<times> ags_errors" where
  "rule_19c_heading dictionary key heading ags_errors =
     (let temp = str_split heading ''_''
      in if hd temp \<noteq> key
         then (case column dictionary ''DICT_HDNG'' of
                 None \<Rightarrow> (Some AttributeError, ags_errors)
               | Some hdngs \<Rightarrow>
                   if Some heading \<notin> set hdngs
                   then (None, add_error_msg ags_errors ''Rule 19b'' NoLine key
                                 (heading @ '' does not start with the name of this group, nor is it defined in another group.''))
                   else (None, ags_errors))
         else (None, ags_errors))"

definition rule_19c :: "tables \<Rightarrow> headings \<Rightarrow> dictionary \<Rightarrow> ags_errors \<Rightarrow> exn option \<times> ags_errors" where
  "rule_19c tables headings dictionary ags_errors =
     for_each (\<lambda>kh. case kh of (key, hs) \<Rightarrow> for_each (rule_19c_heading dictionary key) (tl hs))
       headings ags_errors"

section \<open>The validators by name\<close>

text \<open>
  The line rules of \<open>check.py\<close>, each called with the line, its number, the current group
  and its headings (a rule ignores the arguments it does not take) and the log.
\<close>

datatype line_rule = L1 | L2a | L2c | L3 | L4a | L4b | L5 | L6 | L19 | L19a | L19b

fun line_rule_step ::
  "line_rule \<Rightarrow> string \<Rightarrow> int \<Rightarrow> string \<Rightarrow> string list \<Rightarrow> ags_errors \<Rightarrow> ags_errors" where
  "line_rule_step L1 line n grp hs errs = rule_1 line n errs"
| "line_rule_step L2a line n grp hs errs = rule_2a line n errs"
| "line_rule_step L2c line n grp hs errs = rule_2c line n errs"
| "line_rule_step L3 line n grp hs errs = rule_3 line n errs"
| "line_rule_step L4a line n grp hs errs = rule_4a line n errs"
| "line_rule_step L4b line n grp hs errs = rule_4b line n grp hs errs"
| "line_rule_step L5 line n grp hs errs = rule_5 line n errs"
| "line_rule_step L6 line n grp hs errs = rule_6 line n errs"
| "line_rule_step L19 line n grp hs errs = rule_19 line n errs"
| "line_rule_step L19a line n grp hs errs = rule_19a line n grp errs"
| "line_rule_step L19b line n grp hs errs = rule_19b line n grp errs"

text \<open>
  The group rules of \<open>check.py\<close>, each as a step on the tables and the log. Only Rules 2
  and 2b write to the tables.
\<close>

datatype group_rule =
  G2 | G2b | G7 | G9 | G10a | G10b | G10c | G12 | G13 | G14 | G15 | G16 | G17 | G18 | G19c

definition keep_tables :: "tables \<Rightarrow> exn option \<times> ags_errors \<Rightarrow> exn option \<times> (tables \<times> ags_errors)" where
  "keep_tables tables r = (fst r, (tables, snd r))"

fun group_rule_step ::
  "runtime \<Rightarrow> headings \<Rightarrow> dictionary \<Rightarrow> group_rule \<Rightarrow> tables \<times> ags_errors \<Rightarrow>
   exn option \<times> (tables \<times> ags_errors)" where
  "group_rule_step rt headings dictionary G2 (tables, errs) = rule_2 tables headings errs"
| "group_rule_step rt headings dictionary G2b (tables, errs) = rule_2b tables headings errs"
| "group_rule_step rt headings dictionary G7 (tables, errs) =
     keep_tables tables (rule_7 headings dictionary errs)"
| "group_rule_step rt headings dictionary G9 (tables, errs) =
     keep_tables tables (rule_9 headings dictionary errs)"
| "group_rule_step rt headings dictionary G10a (tables, errs) =
     keep_tables tables (rule_10a tables headings dictionary errs)"
| "group_rule_step rt headings dictionary G10b (tables, errs) =
     keep_tables tables (rule_10b rt tables headings dictionary errs)"
| "group_rule_step rt headings dictionary G10c (tables, errs) =
     keep_tables tables (rule_10c rt tables headings dictionary errs)"
| "group_rule_step rt headings dictionary G12 (tables, errs) =
     keep_tables tables (rule_12 tables headings errs)"
| "group_rule_step rt headings dictionary G13 (tables, errs) =
     keep_tables tables (rule_13 tables headings errs)"
| "group_rule_step rt headings dictionary G14 (tables, errs) =
     keep_tables tables (rule_14 tables headings errs)"
| "group_rule_step rt headings dictionary G15 (tables, errs) =
     keep_tables tables (rule_15 rt tables headings errs)"
| "group_rule_step rt headings dictionary G16 (tables, errs) =
     keep_tables tables (rule_16 rt tables headings dictionary errs)"
| "group_rule_step rt headings dictionary G17 (tables, errs) =
     keep_tables tables (rule_17 rt tables headings dictionary errs)"
| "group_rule_step rt headings dictionary G18 (tables, errs) =
     keep_tables tables (rule_18 tables headings errs)"
| "group_rule_step rt headings dictionary G19c (tables, errs) =
     keep_tables tables (rule_19c tables headings dictionary errs)"

section \<open>Properties of the log\<close>

text \<open>
  \<open>log_extends old new\<close>: every rule name of \<open>old\<close> is at the same place in \<open>new\<close>, and
  its list of errors in \<open>old\<close> is the beginning of its list in \<open>new\<close>.
\<close>

fun log_extends :: "ags_errors \<Rightarrow> ags_errors \<Rightarrow> bool" where
  "log_extends [] new = True"
| "log_extends ((k, v) # old) [] = False"
| "log_extends ((k, v) # old) ((k', v') # new) = (k = k' \<and> prefix v v' \<and> log_extends old new)"

definition total_records :: "ags_errors \<Rightarrow> nat" where
  "total_records errs = sum_list (map (\<lambda>kv. length (snd kv)) errs)"

text \<open>\<open>ags_errors.get(rule, [])\<close>: the errors recorded under a rule name.\<close>

definition records_of :: "ags_errors \<Rightarrow> string \<Rightarrow> error_record list" where
  "records_of errs rule = (case map_of errs rule of Some v \<Rightarrow> v | None \<Rightarrow> [])"

section \<open>Counting the records of Rule 4b\<close>



section \<open>Reading a merged dictionary\<close>

text \<open>
  The \<open>DICT\<close> tables of the input files, in the order of the files; the cells of every
  row of a frame under the four columns that \<open>drop_duplicates\<close> compares; and its cells under
  \<open>DICT_GRP\<close> and \<open>DICT_HDNG\<close> alone.
\<close>

definition dict_tables :: "tables list \<Rightarrow> dataframe list" where
  "dict_tables input_files = List.map_filter (\<lambda>tables. map_of tables ''DICT'') input_files"

definition dict_key :: "'c frame \<Rightarrow> int \<times> 'c list \<Rightarrow> 'c list" where
  "dict_key df r = row_values df (snd r) dict_key_columns"

definition dict_keys :: "'c frame \<Rightarrow> 'c list list" where
  "dict_keys df = map (dict_key df) (df_rows df)"



text \<open>The rows of a table as rows of a dictionary: every cell is a string.\<close>

definition string_rows :: "(int \<times> string list) list \<Rightarrow> (int \<times> string option list) list" where
  "string_rows rows = map (\<lambda>r. (fst r, map Some (snd r))) rows"

definition as_dictionary :: "dataframe \<Rightarrow> dictionary" where
  "as_dictionary df = \<lparr>df_columns = df_columns df, df_rows = string_rows (df_rows df)\<rparr>"

section \<open>Example inputs\<close>

text \<open>A line of a file: the fields in double quotes, separated by commas, ended by CR LF.\<close>

definition ags_line :: "string list \<Rightarrow> string" where
  "ags_line fs = str_join '','' (map (\<lambda>f. [dq] @ f @ [dq]) fs) @ [cr, lf]"

text \<open>
  A dictionary with the groups \<open>LOCA\<close> and \<open>GEOL\<close>; \<open>GEOL\<close> names \<open>LOCA\<close> as its parent
  and lists the heading \<open>LOCA_ID\<close> of its parent after a heading of its own.
\<close>

definition dict_columns :: "string list" where
  "dict_columns = [''HEADING'', ''DICT_TYPE'', ''DICT_GRP'', ''DICT_HDNG'', ''DICT_STAT'', ''DICT_PGRP'']"

definition ex_DICT :: dataframe where
  "ex_DICT =
     \<lparr>df_columns = dict_columns,
      df_rows =
        [(0, [''DATA'', ''GROUP'', ''LOCA'', [], [], []]),
         (1, [''DATA'', ''HEADING'', ''LOCA'', ''LOCA_ID'', ''KEY + REQUIRED'', []]),
         (2, [''DATA'', ''HEADING'', ''LOCA'', ''LOCA_NATE'', ''OTHER'', []]),
         (3, [''DATA'', ''HEADING'', ''LOCA'', ''LOCA_NATN'', ''OTHER'', []]),
         (4, [''DATA'', ''GROUP'', ''GEOL'', [], [], ''LOCA'']),
         (5, [''DATA'', ''HEADING'', ''GEOL'', ''GEOL_TOP'', ''KEY + REQUIRED'', []]),
         (6, [''DATA'', ''HEADING'', ''GEOL'', ''LOCA_ID'', ''KEY + REQUIRED'', []]),
         (7, [''DATA'', ''HEADING'', ''GEOL'', ''GEOL_DESC'', ''OTHER'', []])]\<rparr>"

definition ex_dictionary :: dictionary where
  "ex_dictionary = as_dictionary ex_DICT"

text \<open>
  Two files with a \<open>DICT\<close> table. Both define the heading \<open>LOCA_ID\<close> of the group
  \<open>LOCA\<close>, with different status; the second file leaves \<open>DICT_TYPE\<close> blank.
\<close>

definition ex_file_A :: tables where
  "ex_file_A =
     [(''DICT'', \<lparr>df_columns = dict_columns,
                  df_rows = [(0, [''DATA'', ''HEADING'', ''LOCA'', ''LOCA_ID'', ''KEY'', []])]\<rparr>)]"



text \<open>A file whose \<open>DICT\<close> table has a row but no column \<open>DICT_TYPE\<close>.\<close>

definition ex_file_D :: tables where
  "ex_file_D =
     [(''DICT'', \<lparr>df_columns = [''HEADING'', ''DICT_GRP'', ''DICT_HDNG''],
                  df_rows = [(0, [''DATA'', ''LOCA'', ''LOCA_ID''])]\<rparr>)]"

text \<open>
  A file whose \<open>DICT\<close> table has neither \<open>DICT_HDNG\<close> nor the later columns, and the
  dictionary merged from the first file and this one: the row of the second file has
  \<open>NaN\<close> under \<open>DICT_HDNG\<close>.
\<close>

definition ex_file_E :: tables where
  "ex_file_E =
     [(''DICT'', \<lparr>df_columns = [''HEADING'', ''DICT_TYPE'', ''DICT_GRP''],
                  df_rows = [(0, [''DATA'', ''HEADING'', ''LOCA''])]\<rparr>)]"

definition ex_dictionary_nan :: dictionary where
  "ex_dictionary_nan = concat_DICT [ex_file_A, ex_file_E] empty_df"

text \<open>
  The tables and the heading index of a file with the groups \<open>LOCA\<close> and \<open>GEOL\<close>. The
  second \<open>DATA\<close> row of \<open>GEOL\<close> names the location \<open>BH02\<close>, which \<open>LOCA\<close> does not
  have.
\<close>

definition ex_LOCA :: dataframe where
  "ex_LOCA =
     \<lparr>df_columns = [''HEADING'', ''LOCA_ID'', ''LOCA_NATE''],
      df_rows =
        [(0, [''UNIT'', [], ''m'']),
         (1, [''TYPE'', ''ID'', ''2DP'']),
         (2, [''DATA'', ''BH01'', ''100000.01''])]\<rparr>"

definition ex_GEOL :: dataframe where
  "ex_GEOL =
     \<lparr>df_columns = [''HEADING'', ''LOCA_ID'', ''GEOL_TOP''],
      df_rows =
        [(0, [''UNIT'', [], ''m'']),
         (1, [''TYPE'', ''ID'', ''2DP'']),
         (2, [''DATA'', ''BH01'', ''0.00'']),
         (3, [''DATA'', ''BH02'', ''0.00''])]\<rparr>"

definition ex_tables :: tables where
  "ex_tables = [(''LOCA'', ex_LOCA), (''GEOL'', ex_GEOL)]"

definition ex_headings :: headings where
  "ex_headings =
     [(''LOCA'', [''HEADING'', ''LOCA_ID'', ''LOCA_NATE'']),
      (''GEOL'', [''HEADING'', ''LOCA_ID'', ''GEOL_TOP''])]"


text \<open>
  Tables of the group \<open>LOCA\<close>: one in which the first and the third \<open>DATA\<close> row have the
  location \<open>BH01\<close>, and one with two \<open>UNIT\<close> rows and a single \<open>DATA\<close> row.
\<close>

definition ex_LOCA_twice :: dataframe where
  "ex_LOCA_twice =
     \<lparr>df_columns = [''HEADING'', ''LOCA_ID'', ''LOCA_NATE''],
      df_rows =
        [(0, [''UNIT'', [], ''m'']),
         (1, [''TYPE'', ''ID'', ''2DP'']),
         (2, [''DATA'', ''BH01'', ''1.00'']),
         (3, [''DATA'', ''BH02'', ''2.00'']),
         (4, [''DATA'', ''BH01'', ''3.00''])]\<rparr>"

definition ex_LOCA_units :: dataframe where
  "ex_LOCA_units =
     \<lparr>df_columns = [''HEADING'', ''LOCA_ID'', ''LOCA_NATE''],
      df_rows =
        [(0, [''UNIT'', [], ''m'']),
         (1, [''UNIT'', [], ''ft'']),
         (2, [''TYPE'', ''ID'', ''2DP'']),
         (3, [''DATA'', ''BH01'', ''1.00''])]\<rparr>"


section \<open>Properties\<close>


lemma log_extends_refl: "log_extends a a"
  by (induction a) auto

lemma log_extends_trans: "log_extends a b \<Longrightarrow> log_extends b c \<Longrightarrow> log_extends a c"
proof (induction a b arbitrary: c rule: log_extends.induct)
  case (1 new)
  then show ?case by simp
next
  case (2 k v old)
  then show ?case by simp
next
  case (3 k v old k' v' new)
  then show ?case by (cases c) (auto intro: prefix_order.trans)
qed

lemma log_extends_dict_append: "log_extends errs (dict_append rule e errs)"
  by (induction errs) (auto simp: log_extends_refl)

lemma log_extends_add: "log_extends errs (add_error_msg errs rule line grp desc)"
  by (simp add: add_error_msg_def log_extends_dict_append)

lemma log_extends_add_trans:
  "log_extends a b \<Longrightarrow> log_extends a (add_error_msg b rule line grp desc)"
  by (blast intro: log_extends_trans log_extends_add)

lemma log_extends_foldl:
  "(\<And>errs x. log_extends errs (f errs x)) \<Longrightarrow> log_extends errs (foldl f errs xs)"
proof (induction xs arbitrary: errs)
  case Nil
  then show ?case by (simp add: log_extends_refl)
next
  case (Cons x xs)
  have "log_extends errs (f errs x)" by (rule Cons.prems)
  moreover have "log_extends (f errs x) (foldl f (f errs x) xs)"
    by (rule Cons.IH) (rule Cons.prems)
  ultimately show ?case by (auto intro: log_extends_trans)
qed

lemma for_each_rel:
  assumes step: "\<And>x s e s'. body x s = (e, s') \<Longrightarrow> R s s'"
    and refl: "\<And>s. R s s"
    and trans: "\<And>a b c. R a b \<Longrightarrow> R b c \<Longrightarrow> R a c"
  shows "for_each body xs s = (e, s') \<Longrightarrow> R s s'"
proof (induction xs arbitrary: s)
  case Nil
  then show ?case by (simp add: refl)
next
  case (Cons x xs)
  obtain e1 s1 where b: "body x s = (e1, s1)" by (cases "body x s")
  show ?case
  proof (cases e1)
    case None
    with b Cons.prems have "for_each body xs s1 = (e, s')" by simp
    then have "R s1 s'" by (rule Cons.IH)
    with step[OF b] show ?thesis by (rule trans)
  next
    case (Some a)
    with b Cons.prems have "s' = s1" by simp
    with step[OF b] show ?thesis by simp
  qed
qed

lemma total_records_dict_append: "total_records (dict_append rule e errs) = Suc (total_records errs)"
  by (induction errs) (auto simp: total_records_def)

lemma log_extends_total: "log_extends a b \<Longrightarrow> total_records a \<le> total_records b"
  by (induction a b rule: log_extends.induct) (auto simp: total_records_def dest: prefix_length_le)

lemma records_of_dict_append:
  "records_of (dict_append rule e errs) r = (if r = rule then records_of errs rule @ [e] else records_of errs r)"
  by (induction errs) (auto simp: records_of_def)

lemma log_extends_line_rule: "log_extends errs (line_rule_step r line n grp hs errs)"
  by (cases r)
     (auto simp: rule_1_def rule_2a_def rule_2c_def rule_3_def rule_4a_def rule_4b_def rule_5_def
        rule_6_def rule_19_def rule_19a_def rule_19b_def rule_19a_item_def rule_19b_item_def Let_def
        log_extends_refl log_extends_add intro!: log_extends_foldl split: option.splits)

lemma log_extends_rule_2:
  "rule_2 tables headings errs = (e, t', errs') \<Longrightarrow> log_extends errs errs'"
proof (induction tables arbitrary: errs e t' errs')
  case Nil
  then show ?case by (simp add: log_extends_refl)
next
  case (Cons kd rest)
  obtain key df where kd: "kd = (key, df)" by (cases kd)
  show ?case
  proof (cases "column (reset_index df) ''HEADING''")
    case None
    with Cons.prems kd show ?thesis by (simp add: log_extends_refl)
  next
    case (Some rowtypes)
    let ?errs1 = "if ''DATA'' \<notin> set rowtypes
                  then add_error_msg errs ''Rule 2'' NoLine key ''No DATA rows in group.'' else errs"
    obtain e2 r2 l2 where r: "rule_2 rest headings ?errs1 = (e2, r2, l2)"
      by (cases "rule_2 rest headings ?errs1")
    from Cons.prems kd Some r have "errs' = l2" by (simp split: if_splits)
    moreover have "log_extends ?errs1 l2" using r by (rule Cons.IH)
    moreover have "log_extends errs ?errs1" by (simp add: log_extends_refl log_extends_add)
    ultimately show ?thesis by (blast intro: log_extends_trans)
  qed
qed

lemma log_extends_rule_2b_checks:
  "rule_2b_checks key rowtypes errs = (e, errs') \<Longrightarrow> log_extends errs errs'"
  by (auto simp: rule_2b_checks_def Let_def log_extends_refl log_extends_add
           intro!: log_extends_add_trans split: if_splits)

lemma log_extends_rule_2b:
  "rule_2b tables headings errs = (e, t', errs') \<Longrightarrow> log_extends errs errs'"
proof (induction tables arbitrary: errs e t' errs')
  case Nil
  then show ?case by (simp add: log_extends_refl)
next
  case (Cons kd rest)
  obtain key df where kd: "kd = (key, df)" by (cases kd)
  show ?case
  proof (cases "column (reset_index df) ''HEADING''")
    case None
    with Cons.prems kd show ?thesis by (simp add: log_extends_refl)
  next
    case (Some rowtypes)
    obtain e1 errs1 where c: "rule_2b_checks key rowtypes errs = (e1, errs1)"
      by (cases "rule_2b_checks key rowtypes errs")
    have le1: "log_extends errs errs1" using c by (rule log_extends_rule_2b_checks)
    show ?thesis
    proof (cases e1)
      case None
      obtain e2 r2 l2 where r: "rule_2b rest headings errs1 = (e2, r2, l2)"
        by (cases "rule_2b rest headings errs1")
      from Cons.prems kd Some c None r have "errs' = l2" by simp
      moreover have "log_extends errs1 l2" using r by (rule Cons.IH)
      ultimately show ?thesis using le1 by (blast intro: log_extends_trans)
    next
      case (Some a)
      with Cons.prems kd \<open>column (reset_index df) ''HEADING'' = Some rowtypes\<close> c
      have "errs' = errs1" by simp
      with le1 show ?thesis by simp
    qed
  qed
qed

lemma log_extends_for_each:
  assumes "\<And>x s e s'. body x s = (e, s') \<Longrightarrow> log_extends s s'"
    and "for_each body xs s = (e, s')"
  shows "log_extends s s'"
  using assms(1) log_extends_refl log_extends_trans assms(2) by (rule for_each_rel)

lemma log_extends_rule_7_group:
  "rule_7_group dictionary kh errs = (e, errs') \<Longrightarrow> log_extends errs errs'"
  by (auto simp: rule_7_group_def log_extends_refl log_extends_add split: prod.splits sum.splits if_splits)

lemma log_extends_rule_7: "rule_7 headings dictionary errs = (e, errs') \<Longrightarrow> log_extends errs errs'"
  unfolding rule_7_def by (erule log_extends_for_each[rotated]) (rule log_extends_rule_7_group)

lemma log_extends_rule_9_group:
  "rule_9_group dictionary kh errs = (e, errs') \<Longrightarrow> log_extends errs errs'"
  by (auto simp: rule_9_group_def log_extends_refl log_extends_add
      intro!: log_extends_foldl split: prod.splits sum.splits if_splits)

lemma log_extends_rule_9: "rule_9 headings dictionary errs = (e, errs') \<Longrightarrow> log_extends errs errs'"
  unfolding rule_9_def by (erule log_extends_for_each[rotated]) (rule log_extends_rule_9_group)

lemma log_extends_foldl_trans:
  assumes "log_extends a b" and "\<And>errs x. log_extends errs (f errs x)"
  shows "log_extends a (foldl f b xs)"
proof -
  have "log_extends b (foldl f b xs)" using assms(2) by (rule log_extends_foldl)
  with assms(1) show ?thesis by (rule log_extends_trans)
qed

lemma log_extends_rule_10a_group:
  assumes a: "rule_10a_group headings dictionary gd errs = (e, errs')"
  shows "log_extends errs errs'"
proof -
  obtain grp df where gd: "gd = (grp, df)" by (cases gd)
  show ?thesis
  proof (cases "status_fields dictionary (Some grp) ''key''")
    case (Inl x)
    with a gd show ?thesis by (simp add: rule_10a_group_def log_extends_refl)
  next
    case (Inr key_fields)
    show ?thesis
    proof (cases "map_of headings grp")
      case None
      with a gd Inr show ?thesis by (simp add: rule_10a_group_def log_extends_refl)
    next
      case (Some hs)
      let ?errs1 = "foldl (\<lambda>errs heading.
                      if heading \<notin> set (map Some hs)
                      then add_error_msg errs ''Rule 10a'' NoLine grp
                             (''Key field '' @ show_cell heading @ '' not found.'')
                      else errs) errs key_fields"
      have 1: "log_extends errs ?errs1"
        by (rule log_extends_foldl) (simp add: log_extends_refl log_extends_add)
      show ?thesis
      proof (cases "set key_fields \<subseteq> set (map Some hs)")
        case False
        with a gd Inr Some have "errs' = ?errs1" by (simp add: rule_10a_group_def)
        with 1 show ?thesis by simp
      next
        case True
        show ?thesis
        proof (cases "duplicated df (''HEADING'' # map the key_fields)")
          case (Inl x)
          with a gd Inr Some True have "errs' = ?errs1" by (simp add: rule_10a_group_def)
          with 1 show ?thesis by simp
        next
          case (Inr msk)
          with a gd \<open>status_fields dictionary (Some grp) ''key'' = Inr key_fields\<close> Some True
          have "errs' = foldl (\<lambda>errs row.
                   add_error_msg errs ''Rule 10a'' NoLine grp
                     (''Duplicate key field combination: '' @
                      str_join ''|'' (row_values df row (''HEADING'' # map the key_fields))))
                 ?errs1 (select msk (map snd (df_rows df)))"
            by (simp add: rule_10a_group_def)
          moreover have "log_extends ?errs1 (foldl (\<lambda>errs row.
                   add_error_msg errs ''Rule 10a'' NoLine grp
                     (''Duplicate key field combination: '' @
                      str_join ''|'' (row_values df row (''HEADING'' # map the key_fields))))
                 ?errs1 (select msk (map snd (df_rows df))))"
            by (rule log_extends_foldl) (rule log_extends_add)
          ultimately have "log_extends ?errs1 errs'" by simp
          with 1 show ?thesis by (rule log_extends_trans)
        qed
      qed
    qed
  qed
qed

lemma log_extends_rule_10a:
  "rule_10a tables headings dictionary errs = (e, errs') \<Longrightarrow> log_extends errs errs'"
  unfolding rule_10a_def by (erule log_extends_for_each[rotated]) (rule log_extends_rule_10a_group)

lemma log_extends_rule_10b_heading:
  "rule_10b_heading grp heading st = (e, st') \<Longrightarrow> log_extends (snd st) (snd st')"
  by (auto simp: rule_10b_heading_def Let_def log_extends_refl log_extends_add
      intro!: log_extends_foldl split: prod.splits option.splits)

lemma log_extends_rule_10b_loop:
  "for_each (rule_10b_heading grp) xs s = (e, s') \<Longrightarrow> log_extends (snd s) (snd s')"
proof (rule for_each_rel[where R = "\<lambda>s s'. log_extends (snd s) (snd s')"])
  show "\<And>x s e s'. rule_10b_heading grp x s = (e, s') \<Longrightarrow> log_extends (snd s) (snd s')"
    by (rule log_extends_rule_10b_heading)
  show "\<And>s :: dataframe \<times> ags_errors. log_extends (snd s) (snd s)"
    by (rule log_extends_refl)
  show "\<And>a b c :: dataframe \<times> ags_errors.
          log_extends (snd a) (snd b) \<Longrightarrow> log_extends (snd b) (snd c) \<Longrightarrow> log_extends (snd a) (snd c)"
    by (rule log_extends_trans)
qed

lemma log_extends_rule_10b_group:
  assumes a: "rule_10b_group rt headings dictionary gd errs = (e, errs')"
  shows "log_extends errs errs'"
proof -
  obtain grp table where gd: "gd = (grp, table)" by (cases gd)
  show ?thesis
  proof (cases "status_fields dictionary (Some grp) ''required''")
    case (Inl x)
    with a gd show ?thesis by (simp add: rule_10b_group_def log_extends_refl)
  next
    case (Inr required_fields)
    show ?thesis
    proof (cases "map_of headings grp")
      case None
      with a gd Inr show ?thesis by (simp add: rule_10b_group_def log_extends_refl)
    next
      case (Some hs)
      let ?errs1 = "foldl (\<lambda>errs heading.
                      if heading \<notin> set (map Some hs)
                      then add_error_msg errs ''Rule 10b'' NoLine grp
                             (''Required field '' @ show_cell heading @ '' not found.'')
                      else errs) errs required_fields"
      have 1: "log_extends errs ?errs1"
        by (rule log_extends_foldl) (simp add: log_extends_refl log_extends_add)
      from a gd Inr Some obtain df' where
        "for_each (rule_10b_heading grp) (set_order rt (filter (\<lambda>h. Some h \<in> set required_fields) hs))
           (table, ?errs1) = (e, (df', errs'))"
        by (auto simp: rule_10b_group_def Let_def split: prod.splits)
      then have "log_extends (snd (table, ?errs1)) (snd (df', errs'))"
        by (rule log_extends_rule_10b_loop)
      then have "log_extends ?errs1 errs'" by simp
      with 1 show ?thesis by (rule log_extends_trans)
    qed
  qed
qed

lemma log_extends_rule_10b:
  "rule_10b rt tables headings dictionary errs = (e, errs') \<Longrightarrow> log_extends errs errs'"
  unfolding rule_10b_def by (erule log_extends_for_each[rotated]) (rule log_extends_rule_10b_group)

section \<open>Rule 19b\<close>

text \<open>
  C6. Rule 19b should report a heading whose part after the first underscore is longer
  than four characters, and give a heading without an underscore a record of its own.
  The code measures only the piece between the first and the second underscore, so it
  reports nothing for \<open>LOCA_AB_CDEF\<close>; and it tests the length of the first piece
  before it looks for the second, so \<open>LOCAID\<close>, which has no underscore, gets the
  ordinary record.
\<close>

theorem rule_19b_second_underscore:
  "rule_19b (ags_line [''HEADING'', ''LOCA_AB_CDEF'']) 2 ''LOCA'' [] = []
   \<and> rule_19b (ags_line [''HEADING'', ''LOCAID'']) 2 ''LOCA'' [] =
       [(''Rule 19b'', [\<lparr>err_line = Line 2, err_group = ''LOCA'', err_desc =
          ''Heading LOCAID should consist of a 4 charater group name and a field name of upto 4 characters.''\<rparr>])]"
  by code_simp

lemma log_extends_rule_10c_try:
  "rule_10c_try rt tables headings dictionary grp table st = (e, st') \<Longrightarrow>
   log_extends (snd st) (snd st')"
  by (auto simp: rule_10c_try_def Let_def log_extends_refl log_extends_add
      intro!: log_extends_foldl
      split: prod.splits option.splits list.splits sum.splits if_splits)

lemma log_extends_rule_10c_group:
  assumes "rule_10c_group rt tables headings dictionary gd st = (e, st')"
  shows "log_extends (snd st) (snd st')"
proof -
  obtain grp table where gd: "gd = (grp, table)" by (cases gd)
  show ?thesis
  proof (cases "grp \<in> set root_groups")
    case True
    with assms gd show ?thesis by (simp add: rule_10c_group_def log_extends_refl)
  next
    case False
    obtain e1 bound errs where t: "rule_10c_try rt tables headings dictionary grp table st = (e1, (bound, errs))"
      by (cases "rule_10c_try rt tables headings dictionary grp table st") auto
    then have 1: "log_extends (snd st) errs" by (auto dest: log_extends_rule_10c_try)
    from assms gd False t have "snd st' = errs \<or> (\<exists>d. snd st' = add_error_msg errs ''Rule 10c'' NoLine grp d)"
      by (auto simp: rule_10c_group_def split: option.splits if_splits)
    then have "log_extends errs (snd st')" by (auto simp: log_extends_refl log_extends_add)
    with 1 show ?thesis by (rule log_extends_trans)
  qed
qed

lemma log_extends_rule_10c:
  assumes "rule_10c rt tables headings dictionary errs = (e, errs')"
  shows "log_extends errs errs'"
proof -
  from assms obtain bound where
    "for_each (rule_10c_group rt tables headings dictionary) tables (None, errs) = (e, (bound, errs'))"
    by (auto simp: rule_10c_def split: prod.splits)
  then have "log_extends (snd (None :: string option option, errs)) (snd (bound, errs'))"
  proof (rule for_each_rel[where R = "\<lambda>s s'. log_extends (snd s) (snd s')", rotated 3])
    show "\<And>x s e s'. rule_10c_group rt tables headings dictionary x s = (e, s') \<Longrightarrow> log_extends (snd s) (snd s')"
      by (rule log_extends_rule_10c_group)
    show "\<And>s :: string option option \<times> ags_errors. log_extends (snd s) (snd s)"
      by (rule log_extends_refl)
    show "\<And>a b c :: string option option \<times> ags_errors.
            log_extends (snd a) (snd b) \<Longrightarrow> log_extends (snd b) (snd c) \<Longrightarrow> log_extends (snd a) (snd c)"
      by (rule log_extends_trans)
  qed
  then show ?thesis by simp
qed

lemma log_extends_rule_13: "rule_13 tables headings errs = (e, errs') \<Longrightarrow> log_extends errs errs'"
  by (auto simp: rule_13_def log_extends_refl log_extends_add split: option.splits sum.splits if_splits)

lemma log_extends_rule_14: "rule_14 tables headings errs = (e, errs') \<Longrightarrow> log_extends errs errs'"
  by (auto simp: rule_14_def log_extends_refl log_extends_add split: option.splits sum.splits if_splits)

lemma log_extends_rule_15: "rule_15 rt tables headings errs = (e, errs') \<Longrightarrow> log_extends errs errs'"
  by (auto simp: rule_15_def log_extends_refl log_extends_add intro!: log_extends_foldl
      split: option.splits sum.splits if_splits)

lemma log_extends_rule_17: "rule_17 rt tables headings dictionary errs = (e, errs') \<Longrightarrow> log_extends errs errs'"
  by (auto simp: rule_17_def log_extends_refl log_extends_add intro!: log_extends_foldl
      split: option.splits sum.splits if_splits)

lemma log_extends_rule_18: "rule_18 tables headings errs = (e, errs') \<Longrightarrow> log_extends errs errs'"
  by (auto simp: rule_18_def log_extends_refl log_extends_add split: if_splits)

lemma log_extends_rule_12: "rule_12 tables headings errs = (e, errs') \<Longrightarrow> log_extends errs errs'"
  by (auto simp: rule_12_def log_extends_refl)

lemma log_extends_check_entries:
  "check_entries ABBR grp heading entries errs = (e, errs') \<Longrightarrow> log_extends errs errs'"
  by (auto simp: check_entries_def Let_def log_extends_refl log_extends_add intro!: log_extends_foldl
      split: option.splits if_splits)

lemma log_extends_rule_16_heading:
  "rule_16_heading rt tables ABBR grp df heading errs = (e, errs') \<Longrightarrow> log_extends errs errs'"
  by (auto simp: rule_16_heading_def Let_def log_extends_refl
      dest: log_extends_check_entries split: sum.splits if_splits)

lemma log_extends_rule_16_group:
  "rule_16_group rt tables headings ABBR gd errs = (e, errs') \<Longrightarrow> log_extends errs errs'"
  by (auto simp: rule_16_group_def log_extends_refl split: prod.splits option.splits
      elim: log_extends_for_each[rotated] intro: log_extends_rule_16_heading)

lemma log_extends_rule_16:
  assumes "rule_16 rt tables headings dictionary errs = (e, errs')"
  shows "log_extends errs errs'"
proof -
  obtain e1 errs1 where b: "(case map_of tables ''ABBR'' of
              None \<Rightarrow> (Some KeyError, errs)
            | Some ABBR \<Rightarrow> for_each (rule_16_group rt tables headings ABBR) tables errs) = (e1, errs1)"
    by (cases "(case map_of tables ''ABBR'' of
              None \<Rightarrow> (Some KeyError, errs)
            | Some ABBR \<Rightarrow> for_each (rule_16_group rt tables headings ABBR) tables errs)")
  have 1: "log_extends errs errs1"
  proof (cases "map_of tables ''ABBR''")
    case None
    with b show ?thesis by (simp add: log_extends_refl)
  next
    case (Some ABBR)
    with b have "for_each (rule_16_group rt tables headings ABBR) tables errs = (e1, errs1)" by simp
    then show ?thesis by (rule log_extends_for_each[rotated]) (rule log_extends_rule_16_group)
  qed
  from assms b have "errs' = errs1 \<or> errs' = add_error_msg errs1 ''Rule 16'' NoLine ''ABBR'' ''ABBR table not found.''"
    by (auto simp: rule_16_def split: option.splits sum.splits if_splits)
  then have "log_extends errs1 errs'" by (auto simp: log_extends_refl log_extends_add)
  with 1 show ?thesis by (rule log_extends_trans)
qed

lemma log_extends_rule_19c_heading:
  "rule_19c_heading dictionary key heading errs = (e, errs') \<Longrightarrow> log_extends errs errs'"
  by (auto simp: rule_19c_heading_def Let_def log_extends_refl log_extends_add
      split: option.splits if_splits)

lemma log_extends_rule_19c:
  "rule_19c tables headings dictionary errs = (e, errs') \<Longrightarrow> log_extends errs errs'"
  unfolding rule_19c_def
proof (erule log_extends_for_each[rotated])
  fix x s e s'
  assume "(case x of (key, hs) \<Rightarrow> for_each (rule_19c_heading dictionary key) (tl hs)) s = (e, s')"
  then have "for_each (rule_19c_heading dictionary (fst x)) (tl (snd x)) s = (e, s')"
    by (simp add: case_prod_beta)
  then show "log_extends s s'"
    by (rule log_extends_for_each[rotated]) (rule log_extends_rule_19c_heading)
qed

lemma log_extends_group_rule:
  assumes "group_rule_step rt headings dictionary r (tables, errs) = (e, (tables', errs'))"
  shows "log_extends errs errs'"
proof (cases r)
  case G2 with assms show ?thesis by (auto dest: log_extends_rule_2)
next
  case G2b with assms show ?thesis by (auto dest: log_extends_rule_2b)
next
  case G7 with assms show ?thesis
    by (cases "rule_7 headings dictionary errs") (auto simp: keep_tables_def dest: log_extends_rule_7)
next
  case G9 with assms show ?thesis
    by (cases "rule_9 headings dictionary errs") (auto simp: keep_tables_def dest: log_extends_rule_9)
next
  case G10a with assms show ?thesis
    by (cases "rule_10a tables headings dictionary errs") (auto simp: keep_tables_def dest: log_extends_rule_10a)
next
  case G10b with assms show ?thesis
    by (cases "rule_10b rt tables headings dictionary errs") (auto simp: keep_tables_def dest: log_extends_rule_10b)
next
  case G10c with assms show ?thesis
    by (cases "rule_10c rt tables headings dictionary errs") (auto simp: keep_tables_def dest: log_extends_rule_10c)
next
  case G12 with assms show ?thesis
    by (cases "rule_12 tables headings errs") (auto simp: keep_tables_def dest: log_extends_rule_12)
next
  case G13 with assms show ?thesis
    by (cases "rule_13 tables headings errs") (auto simp: keep_tables_def dest: log_extends_rule_13)
next
  case G14 with assms show ?thesis
    by (cases "rule_14 tables headings errs") (auto simp: keep_tables_def dest: log_extends_rule_14)
next
  case G15 with assms show ?thesis
    by (cases "rule_15 rt tables headings errs") (auto simp: keep_tables_def dest: log_extends_rule_15)
next
  case G16 with assms show ?thesis
    by (cases "rule_16 rt tables headings dictionary errs") (auto simp: keep_tables_def dest: log_extends_rule_16)
next
  case G17 with assms show ?thesis
    by (cases "rule_17 rt tables headings dictionary errs") (auto simp: keep_tables_def dest: log_extends_rule_17)
next
  case G18 with assms show ?thesis
    by (cases "rule_18 tables headings errs") (auto simp: keep_tables_def dest: log_extends_rule_18)
next
  case G19c with assms show ?thesis
    by (cases "rule_19c tables headings dictionary errs") (auto simp: keep_tables_def dest: log_extends_rule_19c)
qed

lemma names_dict_append:
  "map fst (dict_append rule e errs) =
     (if rule \<in> set (map fst errs) then map fst errs else map fst errs @ [rule])"
  by (induction errs) fastforce+

section \<open>The log is append-only\<close>

text \<open>
  C10. \<open>add_error_msg\<close> appends one error to the list under the rule name and creates
  the list, at the end of the log, when the name is new; every other list is unchanged.
  Every line rule and every group rule leaves the errors that were in the log where they
  were, unchanged and in their order, so the number of errors never decreases.
\<close>

theorem error_log_append_only:
  "log_extends errs (add_error_msg errs rule line grp desc)
   \<and> records_of (add_error_msg errs rule line grp desc) r =
       (if r = rule
        then records_of errs rule @ [\<lparr>err_line = line, err_group = grp, err_desc = desc\<rparr>]
        else records_of errs r)
   \<and> map fst (add_error_msg errs rule line grp desc) =
       (if rule \<in> set (map fst errs) then map fst errs else map fst errs @ [rule])
   \<and> total_records (add_error_msg errs rule line grp desc) = total_records errs + 1
   \<and> log_extends errs (line_rule_step lr text n g hs errs)
   \<and> total_records errs \<le> total_records (line_rule_step lr text n g hs errs)
   \<and> log_extends errs (snd (snd (group_rule_step rt headings dictionary gr (tables, errs))))
   \<and> total_records errs
       \<le> total_records (snd (snd (group_rule_step rt headings dictionary gr (tables, errs))))"
proof -
  obtain e t' errs' where g: "group_rule_step rt headings dictionary gr (tables, errs) = (e, (t', errs'))"
    by (cases "group_rule_step rt headings dictionary gr (tables, errs)") auto
  then have ge: "log_extends errs errs'" by (rule log_extends_group_rule)
  have le: "log_extends errs (line_rule_step lr text n g hs errs)" by (rule log_extends_line_rule)
  show ?thesis
    using g ge le log_extends_total[OF ge] log_extends_total[OF le]
    by (simp add: log_extends_dict_append records_of_dict_append names_dict_append
          total_records_dict_append add_error_msg_def)
qed

theorem error_log_append_only_witness:
  "log_extends [(''Rule 1'', [\<lparr>err_line = Line 1, err_group = [], err_desc = ''first''\<rparr>])]
     (rule_2a ''abc'' 2 [(''Rule 1'', [\<lparr>err_line = Line 1, err_group = [], err_desc = ''first''\<rparr>])])
   \<and> rule_2a ''abc'' 2 [(''Rule 1'', [\<lparr>err_line = Line 1, err_group = [], err_desc = ''first''\<rparr>])] =
       [(''Rule 1'', [\<lparr>err_line = Line 1, err_group = [], err_desc = ''first''\<rparr>]),
        (''Rule 2a'', [\<lparr>err_line = Line 2, err_group = [],
                       err_desc = ''Is not terminated by <CR> and <LF> characters.''\<rparr>])]"
proof -
  have "log_extends [(''Rule 1'', [\<lparr>err_line = Line 1, err_group = [], err_desc = ''first''\<rparr>])]
     (line_rule_step L2a ''abc'' 2 [] []
        [(''Rule 1'', [\<lparr>err_line = Line 1, err_group = [], err_desc = ''first''\<rparr>])])"
    using error_log_append_only[of "[(''Rule 1'', [\<lparr>err_line = Line 1, err_group = [], err_desc = ''first''\<rparr>])]"
        "[]" NoLine "[]" "[]" "[]" L2a "''abc''" 2 "[]" "[]"]
    by simp
  moreover have "rule_2a ''abc'' 2 [(''Rule 1'', [\<lparr>err_line = Line 1, err_group = [], err_desc = ''first''\<rparr>])] =
       [(''Rule 1'', [\<lparr>err_line = Line 1, err_group = [], err_desc = ''first''\<rparr>]),
        (''Rule 2a'', [\<lparr>err_line = Line 2, err_group = [],
                       err_desc = ''Is not terminated by <CR> and <LF> characters.''\<rparr>])]"
    by code_simp
  ultimately show ?thesis by simp
qed

section \<open>Rule 4b: the number of fields\<close>














section \<open>Rule 7: the order of the headings\<close>

lemma select_map: "select (map P xs) (map f xs) = map f (filter P xs)"
  by (induction xs) (auto simp: select_def)

lemma column_cells:
  "c \<in> set (df_columns df) \<Longrightarrow>
   column df c = Some (map (\<lambda>r. the (map_of (zip (df_columns df) (snd r)) c)) (df_rows df))"
  by (simp add: column_def cell_def)

lemma filter_remove1_other: "\<not> P x \<Longrightarrow> filter P (remove1 x xs) = filter P xs"
  by (induction xs) auto

lemma filter_remove1_first: "filter Q xs = x # ys \<Longrightarrow> filter Q (remove1 x xs) = ys"
proof (induction xs)
  case Nil
  then show ?case by simp
next
  case (Cons a xs)
  show ?case
  proof (cases "Q a")
    case True
    with Cons.prems show ?thesis by simp
  next
    case False
    with Cons.prems have f: "filter Q xs = x # ys" by simp
    then have "x \<in> set (filter Q xs)" by simp
    then have "Q x" by simp
    with False have "a \<noteq> x" by auto
    with False Cons.IH[OF f] show ?thesis by simp
  qed
qed

lemma drop_unused_filter:
  "filter (\<lambda>x. x \<notin> set (map Some hs)) temp = filter (\<lambda>x. x \<notin> set (map Some hs)) items \<Longrightarrow>
   drop_unused hs items temp = Inr (filter (\<lambda>x. x \<in> set (map Some hs)) temp)"
proof (induction items arbitrary: temp)
  case Nil
  then have "filter (\<lambda>x. x \<notin> set (map Some hs)) temp = []" by simp
  then have "filter (\<lambda>x. x \<in> set (map Some hs)) temp = temp"
    by (simp add: filter_empty_conv filter_id_conv)
  then show ?case by simp
next
  case (Cons item items)
  show ?case
  proof (cases "item \<in> set (map Some hs)")
    case True
    with Cons.prems have "filter (\<lambda>x. x \<notin> set (map Some hs)) temp =
                          filter (\<lambda>x. x \<notin> set (map Some hs)) items" by simp
    then have "drop_unused hs items temp = Inr (filter (\<lambda>x. x \<in> set (map Some hs)) temp)"
      by (rule Cons.IH)
    with True show ?thesis by simp
  next
    case False
    with Cons.prems have f: "filter (\<lambda>x. x \<notin> set (map Some hs)) temp =
                             item # filter (\<lambda>x. x \<notin> set (map Some hs)) items"
      by simp
    then have "item \<in> set (filter (\<lambda>x. x \<notin> set (map Some hs)) temp)" by simp
    then have mem: "item \<in> set temp" by simp
    have "filter (\<lambda>x. x \<notin> set (map Some hs)) (remove1 item temp) =
          filter (\<lambda>x. x \<notin> set (map Some hs)) items"
      using f by (rule filter_remove1_first)
    then have "drop_unused hs items (remove1 item temp) =
               Inr (filter (\<lambda>x. x \<in> set (map Some hs)) (remove1 item temp))" by (rule Cons.IH)
    moreover have "filter (\<lambda>x. x \<in> set (map Some hs)) (remove1 item temp) =
                   filter (\<lambda>x. x \<in> set (map Some hs)) temp"
      using False by (simp add: filter_remove1_other)
    ultimately show ?thesis using False mem by simp
  qed
qed

lemma drop_unused_reference:
  "drop_unused hs reference reference = Inr (filter (\<lambda>x. x \<in> set (map Some hs)) reference)"
  by (rule drop_unused_filter) simp

lemma for_each_total:
  "(\<And>x s. fst (body x s) = None) \<Longrightarrow>
   for_each body xs s = (None, foldl (\<lambda>s x. snd (body x s)) s xs)"
proof (induction xs arbitrary: s)
  case Nil
  then show ?case by simp
next
  case (Cons x xs)
  obtain s1 where b: "body x s = (None, s1)"
    using Cons.prems[of x s] by (cases "body x s") auto
  have "for_each body xs s1 = (None, foldl (\<lambda>s x. snd (body x s)) s1 xs)"
    by (rule Cons.IH) (rule Cons.prems)
  with b show ?case by simp
qed

lemma reference_headings_rows:
  assumes "''DICT_GRP'' \<in> set (df_columns dictionary)"
    and "''DICT_HDNG'' \<in> set (df_columns dictionary)"
  shows "reference_headings dictionary key =
           Inr (map (\<lambda>r. the (map_of (zip (df_columns dictionary) (snd r)) ''DICT_HDNG''))
                  (filter (\<lambda>r. the (map_of (zip (df_columns dictionary) (snd r)) ''DICT_GRP'') = Some key)
                     (df_rows dictionary)))"
proof -
  have "select (map (\<lambda>g. g = Some key)
                  (map (\<lambda>r. the (map_of (zip (df_columns dictionary) (snd r)) ''DICT_GRP''))
                     (df_rows dictionary)))
               (map (\<lambda>r. the (map_of (zip (df_columns dictionary) (snd r)) ''DICT_HDNG''))
                  (df_rows dictionary)) =
        map (\<lambda>r. the (map_of (zip (df_columns dictionary) (snd r)) ''DICT_HDNG''))
          (filter (\<lambda>r. the (map_of (zip (df_columns dictionary) (snd r)) ''DICT_GRP'') = Some key)
             (df_rows dictionary))"
    using select_map[of "\<lambda>r. the (map_of (zip (df_columns dictionary) (snd r)) ''DICT_GRP'') = Some key"
        "df_rows dictionary" "\<lambda>r. the (map_of (zip (df_columns dictionary) (snd r)) ''DICT_HDNG'')"]
    by (simp add: comp_def)
  then show ?thesis
    by (simp add: reference_headings_def column_cells[OF assms(1)] column_cells[OF assms(2)])
qed

text \<open>
  C5. For every group of the heading index Rule 7 takes the headings that the dictionary
  lists for the group: the cells under \<open>DICT_HDNG\<close> of the rows of the dictionary whose
  cell under \<open>DICT_GRP\<close> is the name of the group, in the order of the rows. If the
  headings of the group (all but the first, the row type) are among them, it keeps the
  listed headings that the group has, compares that list with the headings of the group
  and appends one record exactly when the two differ; otherwise it appends one record
  that the order could not be checked. The loop with \<open>temp.remove\<close> computes the filtered
  list and never raises. A \<open>NaN\<close> cell is the heading of no group.
\<close>

theorem rule_7_heading_order:
  assumes "''DICT_GRP'' \<in> set (df_columns dictionary)"
    and "''DICT_HDNG'' \<in> set (df_columns dictionary)"
  shows "rule_7_group dictionary (key, hs) errs =
           (let cell_of = (\<lambda>r c. the (map_of (zip (df_columns dictionary) (snd r)) c));
                reference = map (\<lambda>r. cell_of r ''DICT_HDNG'')
                              (filter (\<lambda>r. cell_of r ''DICT_GRP'' = Some key) (df_rows dictionary))
            in (None,
                if set (map Some (tl hs)) \<subseteq> set reference
                then (if filter (\<lambda>h. h \<in> set (map Some hs)) reference \<noteq> map Some (tl hs)
                      then add_error_msg errs ''Rule 7'' NoLine key
                             (''HEADING names in '' @ key @
                              '' are not in the order that they are defined in the DICT table and the standard dictionary.'')
                      else errs)
                else add_error_msg errs ''Rule 7'' NoLine key
                       ''Order of headings could not be checked as one or more fields were not found in either the DICT table or the standard dictionary. Check error log under Rule 9.''))
         \<and> rule_7 headings dictionary errs =
             (None, foldl (\<lambda>errs kh. snd (rule_7_group dictionary kh errs)) errs headings)"
proof -
  note r = reference_headings_rows[OF assms]
  have g: "\<And>kh errs. fst (rule_7_group dictionary kh errs) = None"
    by (simp add: rule_7_group_def r drop_unused_reference split: prod.splits)
  have 1: "rule_7_group dictionary (key, hs) errs =
           (let cell_of = (\<lambda>r c. the (map_of (zip (df_columns dictionary) (snd r)) c));
                reference = map (\<lambda>r. cell_of r ''DICT_HDNG'')
                              (filter (\<lambda>r. cell_of r ''DICT_GRP'' = Some key) (df_rows dictionary))
            in (None,
                if set (map Some (tl hs)) \<subseteq> set reference
                then (if filter (\<lambda>h. h \<in> set (map Some hs)) reference \<noteq> map Some (tl hs)
                      then add_error_msg errs ''Rule 7'' NoLine key
                             (''HEADING names in '' @ key @
                              '' are not in the order that they are defined in the DICT table and the standard dictionary.'')
                      else errs)
                else add_error_msg errs ''Rule 7'' NoLine key
                       ''Order of headings could not be checked as one or more fields were not found in either the DICT table or the standard dictionary. Check error log under Rule 9.''))"
    by (simp add: rule_7_group_def r drop_unused_reference Let_def)
  have 2: "rule_7 headings dictionary errs =
             (None, foldl (\<lambda>errs kh. snd (rule_7_group dictionary kh errs)) errs headings)"
    unfolding rule_7_def by (rule for_each_total) (rule g)
  from 1 2 show ?thesis by (rule conjI)
qed

theorem rule_7_heading_order_witness:
  "''DICT_GRP'' \<in> set (df_columns ex_dictionary)
   \<and> ''DICT_HDNG'' \<in> set (df_columns ex_dictionary)
   \<and> rule_7_group ex_dictionary (''LOCA'', [''HEADING'', ''LOCA_ID'', ''LOCA_NATE'']) [] = (None, [])
   \<and> rule_7_group ex_dictionary (''GEOL'', [''HEADING'', ''LOCA_ID'', ''GEOL_TOP'']) [] =
       (None, [(''Rule 7'', [\<lparr>err_line = NoLine, err_group = ''GEOL'', err_desc =
          ''HEADING names in GEOL are not in the order that they are defined in the DICT table and the standard dictionary.''\<rparr>])])
   \<and> rule_7_group ex_dictionary (''GEOL'', [''HEADING'', ''GEOL_TOP'', ''LOCA_NATE'']) [] =
       (None, [(''Rule 7'', [\<lparr>err_line = NoLine, err_group = ''GEOL'', err_desc =
          ''Order of headings could not be checked as one or more fields were not found in either the DICT table or the standard dictionary. Check error log under Rule 9.''\<rparr>])])"
proof -
  have a: "''DICT_GRP'' \<in> set (df_columns ex_dictionary)" by code_simp
  have b: "''DICT_HDNG'' \<in> set (df_columns ex_dictionary)" by code_simp
  note t = conjunct1[OF rule_7_heading_order[OF a b]]
  have c: "rule_7_group ex_dictionary (''LOCA'', [''HEADING'', ''LOCA_ID'', ''LOCA_NATE'']) [] = (None, [])"
    unfolding t by code_simp
  have d: "rule_7_group ex_dictionary (''GEOL'', [''HEADING'', ''LOCA_ID'', ''GEOL_TOP'']) [] =
       (None, [(''Rule 7'', [\<lparr>err_line = NoLine, err_group = ''GEOL'', err_desc =
          ''HEADING names in GEOL are not in the order that they are defined in the DICT table and the standard dictionary.''\<rparr>])])"
    unfolding t by code_simp
  have e: "rule_7_group ex_dictionary (''GEOL'', [''HEADING'', ''GEOL_TOP'', ''LOCA_NATE'']) [] =
       (None, [(''Rule 7'', [\<lparr>err_line = NoLine, err_group = ''GEOL'', err_desc =
          ''Order of headings could not be checked as one or more fields were not found in either the DICT table or the standard dictionary. Check error log under Rule 9.''\<rparr>])])"
    unfolding t by code_simp
  from a b c d e show ?thesis by blast
qed

lemma rule_7_nan_heading:
  "rule_7_group ex_dictionary_nan (''LOCA'', [''HEADING'', ''LOCA_ID'', ''nan'']) [] =
     (None, [(''Rule 7'', [\<lparr>err_line = NoLine, err_group = ''LOCA'', err_desc =
        ''Order of headings could not be checked as one or more fields were not found in either the DICT table or the standard dictionary. Check error log under Rule 9.''\<rparr>])])"
  by code_simp

section \<open>Properties of the dictionary merger\<close>






lemma keep_first_nonempty: "rs \<noteq> [] \<Longrightarrow> keep_first key [] rs \<noteq> []"
  by (cases rs) auto





lemma length_concat_DICT:
  "length (df_rows (concat_DICT input_files m)) =
     length (df_rows m) + sum_list (map (\<lambda>d. length (df_rows d)) (dict_tables input_files))"
proof (induction input_files arbitrary: m)
  case Nil
  then show ?case by (simp add: dict_tables_def map_filter_simps)
next
  case (Cons t files)
  then show ?case
    by (cases "map_of t ''DICT''") (simp_all add: dict_tables_def map_filter_simps concat_df_def Let_def)
qed

lemma columns_concat_DICT:
  "set (df_columns (concat_DICT input_files m)) =
     set (df_columns m) \<union> set (concat (map df_columns (dict_tables input_files)))"
proof (induction input_files arbitrary: m)
  case Nil
  then show ?case by (simp add: dict_tables_def map_filter_simps)
next
  case (Cons t files)
  then show ?case
    by (cases "map_of t ''DICT''")
       (auto simp add: dict_tables_def map_filter_simps concat_df_def Let_def)
qed

lemma no_rows_concat_DICT:
  "df_rows (concat_DICT input_files empty_df) = [] \<longleftrightarrow>
   list_all (\<lambda>t. df_rows t = []) (dict_tables input_files)"
proof -
  have "df_rows (concat_DICT input_files empty_df) = [] \<longleftrightarrow>
        length (df_rows (concat_DICT input_files empty_df)) = 0" by simp
  also have "\<dots> \<longleftrightarrow> sum_list (map (\<lambda>d. length (df_rows d)) (dict_tables input_files)) = 0"
    by (simp add: length_concat_DICT empty_df_def)
  also have "\<dots> \<longleftrightarrow> list_all (\<lambda>t. df_rows t = []) (dict_tables input_files)"
    by (induction "dict_tables input_files") (auto simp: list_all_iff)
  finally show ?thesis .
qed


lemma combine_DICT_tables_result:
  "combine_DICT_tables input_files =
     (let m = concat_DICT input_files empty_df
      in if df_rows m = [] then Inl SystemExit
         else if set dict_key_columns \<subseteq> set (df_columns m)
         then Inr (m\<lparr>df_rows := keep_first (dict_key m) [] (df_rows m)\<rparr>)
         else Inl KeyError)"
proof -
  have "(\<lambda>r. row_values m (snd r) dict_key_columns) = dict_key m" for m :: dictionary
    by (rule ext) (simp add: dict_key_def)
  then show ?thesis
    by (simp add: combine_DICT_tables_def drop_duplicates_def Let_def)
qed

section \<open>The dictionary merger keeps the first of two duplicates\<close>




section \<open>The dictionary merger stops the run when there is no dictionary\<close>

text \<open>
  C9, as amended. When no \<open>DICT\<close> table of the input files has a row, the merger calls
  \<open>sys.exit\<close>: it raises \<open>SystemExit\<close>, returns no dictionary and takes no log. When a
  \<open>DICT\<close> table has a row and the four columns that \<open>drop_duplicates\<close> compares are
  columns of \<open>DICT\<close> tables, it returns the merged dictionary, which has a row. When a
  \<open>DICT\<close> table has a row and one of the four columns is a column of no \<open>DICT\<close> table,
  \<open>drop_duplicates\<close> raises \<open>KeyError\<close>.
\<close>

theorem combine_DICT_tables_exit:
  "(list_all (\<lambda>t. df_rows t = []) (dict_tables input_files) \<longrightarrow>
      combine_DICT_tables input_files = Inl SystemExit)
   \<and> (\<not> list_all (\<lambda>t. df_rows t = []) (dict_tables input_files)
        \<and> set [''HEADING'', ''DICT_TYPE'', ''DICT_GRP'', ''DICT_HDNG'']
              \<subseteq> set (concat (map df_columns (dict_tables input_files))) \<longrightarrow>
      (\<exists>d. combine_DICT_tables input_files = Inr d \<and> df_rows d \<noteq> []))
   \<and> (\<not> list_all (\<lambda>t. df_rows t = []) (dict_tables input_files)
        \<and> \<not> set [''HEADING'', ''DICT_TYPE'', ''DICT_GRP'', ''DICT_HDNG'']
                \<subseteq> set (concat (map df_columns (dict_tables input_files))) \<longrightarrow>
      combine_DICT_tables input_files = Inl KeyError)"
proof -
  define m where "m = concat_DICT input_files empty_df"
  have e: "df_rows m = [] \<longleftrightarrow> list_all (\<lambda>t. df_rows t = []) (dict_tables input_files)"
    unfolding m_def by (rule no_rows_concat_DICT)
  have c: "set (df_columns m) = set (concat (map df_columns (dict_tables input_files)))"
    unfolding m_def by (simp add: columns_concat_DICT empty_df_def)
  have k: "set dict_key_columns = set [''HEADING'', ''DICT_TYPE'', ''DICT_GRP'', ''DICT_HDNG'']"
    by (simp add: dict_key_columns_def)
  show ?thesis
    unfolding combine_DICT_tables_result m_def[symmetric] Let_def k c[symmetric] e[symmetric]
    by (auto simp: keep_first_nonempty)
qed

theorem combine_DICT_tables_exit_witness:
  "list_all (\<lambda>t. df_rows t = []) (dict_tables [[]])
   \<and> combine_DICT_tables [[]] = Inl SystemExit
   \<and> combine_DICT_tables [ex_file_A] =
       Inr \<lparr>df_columns = dict_columns,
            df_rows = string_rows [(0, [''DATA'', ''HEADING'', ''LOCA'', ''LOCA_ID'', ''KEY'', []])]\<rparr>"
proof -
  have h: "list_all (\<lambda>t. df_rows t = []) (dict_tables [[]])" by code_simp
  from conjunct1[OF combine_DICT_tables_exit[of "[[]]"]] h
  have a: "combine_DICT_tables [[]] = Inl SystemExit" by (rule mp)
  have b: "combine_DICT_tables [ex_file_A] =
       Inr \<lparr>df_columns = dict_columns,
            df_rows = string_rows [(0, [''DATA'', ''HEADING'', ''LOCA'', ''LOCA_ID'', ''KEY'', []])]\<rparr>"
    by code_simp
  from h a b show ?thesis by blast
qed

theorem combine_DICT_tables_missing_column_counterexample:
  "df_rows (concat_DICT [ex_file_D] empty_df) = string_rows [(0, [''DATA'', ''LOCA'', ''LOCA_ID''])]
   \<and> combine_DICT_tables [ex_file_D] = Inl KeyError"
  by code_simp

section \<open>Rule 10c: the rule name of an orphan row\<close>

text \<open>
  Claim C1. For a group outside \<open>PROJ\<close>, \<open>TRAN\<close>, \<open>ABBR\<close>, \<open>DICT\<close>, \<open>UNIT\<close>, \<open>TYPE\<close>,
  \<open>LOCA\<close> whose parent group and parent key fields are found, \<open>rule_10c\<close> is to record, under
  the name of the rule of referential integrity, one error for each \<open>DATA\<close> row of the child
  group with no matching row in the parent group. In the example \<open>GEOL\<close> has the parent
  \<open>LOCA\<close> with the key field \<open>LOCA_ID\<close>, and its row for \<open>BH02\<close> has no parent row. The
  code records the one error for that row, and none for the rows with a match, but under the
  name \<open>Rule 10a\<close>, the rule of key uniqueness: the log has no entry \<open>Rule 10c\<close> at
  all. This holds for every order of set iteration.
\<close>

theorem rule_10c_records_under_rule_10a:
  "rule_10c rt ex_tables ex_headings ex_dictionary [] =
     (None, [(''Rule 10a'', [\<lparr>err_line = NoLine, err_group = ''GEOL'',
                err_desc = ''Parent entry for line not found in LOCA: BH02''\<rparr>])])"
  by code_simp

section \<open>Rule 10a: rows that share their key fields\<close>

lemma foldl_if_filter:
  "foldl (\<lambda>s x. if P x then f s x else s) s xs = foldl f s (filter P xs)"
  by (induction xs arbitrary: s) auto

lemma filter_as_positions:
  "filter P xs = map (\<lambda>i. xs ! i) (filter (\<lambda>i. P (xs ! i)) [0..<length xs])"
proof -
  have "filter P (map (\<lambda>i. xs ! i) [0..<length xs]) =
        map (\<lambda>i. xs ! i) (filter (\<lambda>i. P (xs ! i)) [0..<length xs])"
    by (simp add: filter_map comp_def)
  then show ?thesis by (simp add: map_nth)
qed

lemma count_list_pos: "0 < count_list xs x \<longleftrightarrow> x \<in> set xs"
  by (induction xs) auto

lemma count_list_shared:
  "i < length ks \<Longrightarrow>
   1 < count_list ks (ks ! i) \<longleftrightarrow> (\<exists>j<length ks. j \<noteq> i \<and> ks ! j = ks ! i)"
proof (induction ks arbitrary: i)
  case Nil
  then show ?case by simp
next
  case (Cons k ks)
  show ?case
  proof (cases i)
    case 0
    have "1 < count_list (k # ks) k \<longleftrightarrow> k \<in> set ks"
      using count_list_pos[of ks k] by simp
    also have "\<dots> \<longleftrightarrow> (\<exists>j<length ks. ks ! j = k)"
      by (simp add: in_set_conv_nth)
    also have "\<dots> \<longleftrightarrow> (\<exists>j<length (k # ks). j \<noteq> 0 \<and> (k # ks) ! j = k)"
    proof
      assume "\<exists>j<length ks. ks ! j = k"
      then obtain j where "j < length ks" "ks ! j = k" by blast
      then have "Suc j < length (k # ks) \<and> Suc j \<noteq> 0 \<and> (k # ks) ! Suc j = k" by simp
      then show "\<exists>j<length (k # ks). j \<noteq> 0 \<and> (k # ks) ! j = k" by blast
    next
      assume "\<exists>j<length (k # ks). j \<noteq> 0 \<and> (k # ks) ! j = k"
      then obtain j where j: "j < length (k # ks)" "j \<noteq> 0" "(k # ks) ! j = k" by blast
      then obtain j' where "j = Suc j'" by (cases j) auto
      with j have "j' < length ks \<and> ks ! j' = k" by simp
      then show "\<exists>j<length ks. ks ! j = k" by blast
    qed
    finally show ?thesis using 0 by simp
  next
    case (Suc i')
    with Cons.prems have i': "i' < length ks" by simp
    show ?thesis
    proof (cases "k = ks ! i'")
      case True
      have "0 < count_list ks (ks ! i')" using i' count_list_pos[of ks "ks ! i'"] by simp
      then have l: "1 < count_list (k # ks) ((k # ks) ! i)" using True Suc by simp
      have "0 < length (k # ks) \<and> 0 \<noteq> i \<and> (k # ks) ! 0 = (k # ks) ! i" using True Suc by simp
      then have "\<exists>j<length (k # ks). j \<noteq> i \<and> (k # ks) ! j = (k # ks) ! i" by blast
      with l show ?thesis by simp
    next
      case False
      have "1 < count_list (k # ks) ((k # ks) ! i) \<longleftrightarrow> 1 < count_list ks (ks ! i')"
        using False Suc by simp
      also have "\<dots> \<longleftrightarrow> (\<exists>j<length ks. j \<noteq> i' \<and> ks ! j = ks ! i')"
        by (rule Cons.IH[OF i'])
      also have "\<dots> \<longleftrightarrow> (\<exists>j<length (k # ks). j \<noteq> i \<and> (k # ks) ! j = (k # ks) ! i)"
      proof
        assume "\<exists>j<length ks. j \<noteq> i' \<and> ks ! j = ks ! i'"
        then obtain j where "j < length ks" "j \<noteq> i'" "ks ! j = ks ! i'" by blast
        then have "Suc j < length (k # ks) \<and> Suc j \<noteq> i \<and> (k # ks) ! Suc j = (k # ks) ! i"
          using Suc by simp
        then show "\<exists>j<length (k # ks). j \<noteq> i \<and> (k # ks) ! j = (k # ks) ! i" by blast
      next
        assume "\<exists>j<length (k # ks). j \<noteq> i \<and> (k # ks) ! j = (k # ks) ! i"
        then obtain j where j: "j < length (k # ks)" "j \<noteq> i" "(k # ks) ! j = (k # ks) ! i" by blast
        have "j \<noteq> 0" using j False Suc by (cases j) auto
        then obtain j' where "j = Suc j'" by (cases j) auto
        with j Suc have "j' < length ks \<and> j' \<noteq> i' \<and> ks ! j' = ks ! i'" by simp
        then show "\<exists>j<length ks. j \<noteq> i' \<and> ks ! j = ks ! i'" by blast
      qed
      finally show ?thesis .
    qed
  qed
qed

lemma shared_positions:
  "filter (\<lambda>i. 1 < count_list (map key rows) (key (rows ! i))) [0..<length rows] =
   filter (\<lambda>i. \<exists>j\<in>set [0..<length rows]. j \<noteq> i \<and> key (rows ! j) = key (rows ! i)) [0..<length rows]"
proof (rule filter_cong[OF refl])
  fix i assume "i \<in> set [0..<length rows]"
  then have i: "i < length (map key rows)" by simp
  have "1 < count_list (map key rows) (map key rows ! i) \<longleftrightarrow>
        (\<exists>j<length (map key rows). j \<noteq> i \<and> map key rows ! j = map key rows ! i)"
    by (rule count_list_shared[OF i])
  moreover have "map key rows ! i = key (rows ! i)" using i by simp
  moreover have "(\<exists>j<length (map key rows). j \<noteq> i \<and> map key rows ! j = map key rows ! i) \<longleftrightarrow>
                 (\<exists>j\<in>set [0..<length rows]. j \<noteq> i \<and> key (rows ! j) = key (rows ! i))"
    using i by auto
  ultimately show "(1 < count_list (map key rows) (key (rows ! i))) =
        (\<exists>j\<in>set [0..<length rows]. j \<noteq> i \<and> key (rows ! j) = key (rows ! i))"
    by simp
qed

lemma duplicated_rows:
  fixes df :: "'c frame"
  assumes "set names \<subseteq> set (df_columns df)"
  shows "\<exists>msk. duplicated df names = Inr msk \<and>
           select msk (map snd (df_rows df)) =
             map (\<lambda>i. map snd (df_rows df) ! i)
               (filter (\<lambda>i. \<exists>j\<in>set [0..<length (map snd (df_rows df))]. j \<noteq> i \<and>
                          map (\<lambda>c. the (map_of (zip (df_columns df) (map snd (df_rows df) ! j)) c)) names =
                          map (\<lambda>c. the (map_of (zip (df_columns df) (map snd (df_rows df) ! i)) c)) names)
                  [0..<length (map snd (df_rows df))])"
proof -
  define rows where "rows = map snd (df_rows df)"
  define key where "key = (\<lambda>row::'c list. map (\<lambda>c. the (map_of (zip (df_columns df) row) c)) names)"
  have k: "map (\<lambda>r. row_values df (snd r) names) (df_rows df) = map key rows"
    by (simp add: rows_def key_def row_values_def cell_def comp_def)
  have d: "duplicated df names = Inr (map (\<lambda>r. 1 < count_list (map key rows) (key r)) rows)"
    using assms k by (simp add: duplicated_def Let_def comp_def)
  have "select (map (\<lambda>r. 1 < count_list (map key rows) (key r)) rows) rows =
        filter (\<lambda>r. 1 < count_list (map key rows) (key r)) rows"
    using select_map[of "\<lambda>r. 1 < count_list (map key rows) (key r)" rows "\<lambda>r. r"] by simp
  also have "\<dots> = map (\<lambda>i. rows ! i)
                      (filter (\<lambda>i. 1 < count_list (map key rows) (key (rows ! i))) [0..<length rows])"
    by (rule filter_as_positions)
  also have "\<dots> = map (\<lambda>i. rows ! i)
                      (filter (\<lambda>i. \<exists>j\<in>set [0..<length rows]. j \<noteq> i \<and> key (rows ! j) = key (rows ! i))
                         [0..<length rows])"
    by (simp only: shared_positions)
  finally show ?thesis using d unfolding rows_def key_def by blast
qed

lemma status_mask:
  "map (\<lambda>(g, s). cell_equals g (Some grp) \<and> cell_contains s word) (zip (map G xs) (map S xs)) =
   map (\<lambda>r. G r = Some grp \<and> (case S r of None \<Rightarrow> False | Some s \<Rightarrow> sublist word (map ascii_lower s))) xs"
  by (induction xs)
     (auto simp: cell_equals_def cell_contains_def contains_nocase_def split: option.splits)

lemma status_fields_rows:
  assumes "''DICT_GRP'' \<in> set (df_columns dictionary)"
    and "''DICT_STAT'' \<in> set (df_columns dictionary)"
    and "''DICT_HDNG'' \<in> set (df_columns dictionary)"
  shows "status_fields dictionary (Some grp) word =
           Inr (map (\<lambda>r. the (map_of (zip (df_columns dictionary) (snd r)) ''DICT_HDNG''))
                  (filter (\<lambda>r. the (map_of (zip (df_columns dictionary) (snd r)) ''DICT_GRP'') = Some grp \<and>
                               (case the (map_of (zip (df_columns dictionary) (snd r)) ''DICT_STAT'') of
                                  None \<Rightarrow> False
                                | Some s \<Rightarrow> sublist word (map ascii_lower s)))
                     (df_rows dictionary)))"
proof -
  define G where "G = (\<lambda>r::int \<times> string option list. the (map_of (zip (df_columns dictionary) (snd r)) ''DICT_GRP''))"
  define S where "S = (\<lambda>r::int \<times> string option list. the (map_of (zip (df_columns dictionary) (snd r)) ''DICT_STAT''))"
  define H where "H = (\<lambda>r::int \<times> string option list. the (map_of (zip (df_columns dictionary) (snd r)) ''DICT_HDNG''))"
  have z: "map (\<lambda>(g, s). cell_equals g (Some grp) \<and> cell_contains s word)
             (zip (map G (df_rows dictionary)) (map S (df_rows dictionary))) =
           map (\<lambda>r. G r = Some grp \<and> (case S r of None \<Rightarrow> False | Some s \<Rightarrow> sublist word (map ascii_lower s)))
             (df_rows dictionary)"
    by (rule status_mask)
  have "status_fields dictionary (Some grp) word =
          Inr (select (map (\<lambda>(g, s). cell_equals g (Some grp) \<and> cell_contains s word)
                         (zip (map G (df_rows dictionary)) (map S (df_rows dictionary))))
                 (map H (df_rows dictionary)))"
    by (simp add: status_fields_def column_cells[OF assms(1)] column_cells[OF assms(2)]
          column_cells[OF assms(3)] G_def S_def H_def)
  also have "\<dots> = Inr (map H (filter (\<lambda>r. G r = Some grp \<and>
                        (case S r of None \<Rightarrow> False | Some s \<Rightarrow> sublist word (map ascii_lower s)))
                      (df_rows dictionary)))"
    unfolding z by (simp add: select_map)
  finally show ?thesis unfolding G_def S_def H_def .
qed


lemma duplicated_missing_column:
  "\<not> set names \<subseteq> set (df_columns df) \<Longrightarrow> duplicated df names = Inl KeyError"
  by (simp add: duplicated_def)

text \<open>
  Claim C3, as amended. Let the dictionary have the columns \<open>DICT_GRP\<close>, \<open>DICT_STAT\<close> and
  \<open>DICT_HDNG\<close>, and let the group be in the heading index. The key headings of the group are
  the \<open>DICT_HDNG\<close> cells of the dictionary rows of the group whose status contains \<open>key\<close>
  in any case. When a key heading is not among the headings of the group, \<open>rule_10a\<close>
  records one error for each absent key heading and does not look for duplicates. When all
  are present, it records one error for precisely the rows of the table, of any row type,
  whose cells under \<open>HEADING\<close> and the key headings are the same as those of another row of
  the table, in the order of the rows, and no error for a row whose cells differ from those
  of every other row; as the row type is one of these cells, a \<open>DATA\<close> row is reported only
  when it shares them with another \<open>DATA\<close> row. \<open>duplicated\<close> raises \<open>KeyError\<close> when the
  table has no column of that name. The loop over the tables stops at the first group that
  raises.
\<close>

theorem rule_10a_shared_keys:
  assumes "''DICT_GRP'' \<in> set (df_columns dictionary)"
    and "''DICT_STAT'' \<in> set (df_columns dictionary)"
    and "''DICT_HDNG'' \<in> set (df_columns dictionary)"
    and "map_of headings grp = Some hs"
  shows "rule_10a_group headings dictionary (grp, df) errs =
           (let dict_cell = (\<lambda>r c. the (map_of (zip (df_columns dictionary) (snd r)) c));
                key_fields = map (\<lambda>r. dict_cell r ''DICT_HDNG'')
                               (filter (\<lambda>r. dict_cell r ''DICT_GRP'' = Some grp \<and>
                                            (case dict_cell r ''DICT_STAT'' of
                                               None \<Rightarrow> False
                                             | Some s \<Rightarrow> sublist ''key'' (map ascii_lower s)))
                                  (df_rows dictionary));
                missing = filter (\<lambda>h. h \<notin> set (map Some hs)) key_fields;
                names = ''HEADING'' # map the key_fields;
                rows = map snd (df_rows df);
                key_of = (\<lambda>row. map (\<lambda>c. the (map_of (zip (df_columns df) row) c)) names);
                shared = filter (\<lambda>i. \<exists>j\<in>set [0..<length rows]. j \<noteq> i \<and> key_of (rows ! j) = key_of (rows ! i))
                           [0..<length rows]
            in if missing \<noteq> []
               then (None, foldl (\<lambda>errs h. add_error_msg errs ''Rule 10a'' NoLine grp
                                   (''Key field '' @ show_cell h @ '' not found.'')) errs missing)
               else if \<not> set names \<subseteq> set (df_columns df) then (Some KeyError, errs)
               else (None, foldl (\<lambda>errs i. add_error_msg errs ''Rule 10a'' NoLine grp
                                   (''Duplicate key field combination: '' @ str_join ''|'' (key_of (rows ! i))))
                             errs shared))
         \<and> rule_10a ((grp, df) # tables) headings dictionary errs =
             (case rule_10a_group headings dictionary (grp, df) errs of
                (None, errs') \<Rightarrow> rule_10a tables headings dictionary errs'
              | (Some e, errs') \<Rightarrow> (Some e, errs'))"
proof -
  define kf where "kf = map (\<lambda>r. the (map_of (zip (df_columns dictionary) (snd r)) ''DICT_HDNG''))
                  (filter (\<lambda>r. the (map_of (zip (df_columns dictionary) (snd r)) ''DICT_GRP'') = Some grp \<and>
                               (case the (map_of (zip (df_columns dictionary) (snd r)) ''DICT_STAT'') of
                                  None \<Rightarrow> False
                                | Some s \<Rightarrow> sublist ''key'' (map ascii_lower s)))
                     (df_rows dictionary))"
  define missing where "missing = filter (\<lambda>h. h \<notin> set (map Some hs)) kf"
  define names where "names = ''HEADING'' # map the kf"
  define rows where "rows = map snd (df_rows df)"
  define key_of where "key_of = (\<lambda>row::string list. map (\<lambda>c. the (map_of (zip (df_columns df) row) c)) names)"
  define shared where "shared = filter (\<lambda>i. \<exists>j\<in>set [0..<length rows]. j \<noteq> i \<and> key_of (rows ! j) = key_of (rows ! i))
                           [0..<length rows]"
  have sf: "status_fields dictionary (Some grp) ''key'' = Inr kf"
    unfolding kf_def by (rule status_fields_rows[OF assms(1) assms(2) assms(3)])
  have e1: "foldl (\<lambda>errs heading.
                     if heading \<notin> set (map Some hs)
                     then add_error_msg errs ''Rule 10a'' NoLine grp
                            (''Key field '' @ show_cell heading @ '' not found.'')
                     else errs) errs kf =
            foldl (\<lambda>errs h. add_error_msg errs ''Rule 10a'' NoLine grp
                     (''Key field '' @ show_cell h @ '' not found.'')) errs missing"
    unfolding missing_def by (rule foldl_if_filter)
  have sub: "set kf \<subseteq> set (map Some hs) \<longleftrightarrow> missing = []"
    unfolding missing_def by (auto simp: filter_empty_conv)
  have rv: "\<And>row. row_values df row names = key_of row"
    by (simp add: row_values_def key_of_def cell_def)
  have unf: "rule_10a_group headings dictionary (grp, df) errs =
           (if set kf \<subseteq> set (map Some hs)
            then (case duplicated df (''HEADING'' # map the kf) of
                    Inl e \<Rightarrow> (Some e, foldl (\<lambda>errs h. add_error_msg errs ''Rule 10a'' NoLine grp
                                   (''Key field '' @ show_cell h @ '' not found.'')) errs missing)
                  | Inr msk \<Rightarrow>
                      (None, foldl (\<lambda>errs row.
                               add_error_msg errs ''Rule 10a'' NoLine grp
                                 (''Duplicate key field combination: '' @
                                  str_join ''|'' (row_values df row (''HEADING'' # map the kf))))
                             (foldl (\<lambda>errs h. add_error_msg errs ''Rule 10a'' NoLine grp
                                   (''Key field '' @ show_cell h @ '' not found.'')) errs missing)
                             (select msk (map snd (df_rows df)))))
            else (None, foldl (\<lambda>errs h. add_error_msg errs ''Rule 10a'' NoLine grp
                                   (''Key field '' @ show_cell h @ '' not found.'')) errs missing))"
    unfolding rule_10a_group_def
    by (simp only: sf assms(4) prod.case sum.case option.case Let_def e1)
  have body: "rule_10a_group headings dictionary (grp, df) errs =
           (if missing \<noteq> []
               then (None, foldl (\<lambda>errs h. add_error_msg errs ''Rule 10a'' NoLine grp
                                   (''Key field '' @ show_cell h @ '' not found.'')) errs missing)
               else if \<not> set names \<subseteq> set (df_columns df) then (Some KeyError, errs)
               else (None, foldl (\<lambda>errs i. add_error_msg errs ''Rule 10a'' NoLine grp
                                   (''Duplicate key field combination: '' @ str_join ''|'' (key_of (rows ! i))))
                             errs shared))"
  proof (cases "missing = []")
    case False
    then have "\<not> set kf \<subseteq> set (map Some hs)" using sub by simp
    then show ?thesis using False unfolding unf by simp
  next
    case True
    then have all: "set kf \<subseteq> set (map Some hs)" using sub by simp
    show ?thesis
    proof (cases "set names \<subseteq> set (df_columns df)")
      case False
      have "duplicated df (''HEADING'' # map the kf) = Inl KeyError"
        using duplicated_missing_column[OF False] by (simp add: names_def)
      then show ?thesis
        using True False all unfolding unf by simp
    next
      case cols: True
      obtain msk where m: "duplicated df names = Inr msk"
        and s: "select msk rows = map (\<lambda>i. rows ! i) shared"
        using duplicated_rows[OF cols] unfolding rows_def shared_def key_of_def by blast
      have m': "duplicated df (''HEADING'' # map the kf) = Inr msk" using m by (simp add: names_def)
      have s': "select msk (map snd (df_rows df)) = map (\<lambda>i. rows ! i) shared"
        using s by (simp add: rows_def)
      have "rule_10a_group headings dictionary (grp, df) errs =
              (None, foldl (\<lambda>errs row. add_error_msg errs ''Rule 10a'' NoLine grp
                              (''Duplicate key field combination: '' @ str_join ''|'' (key_of row)))
                       errs (map (\<lambda>i. rows ! i) shared))"
        using True all unfolding unf m' by (simp add: s' rv[unfolded names_def])
      also have "\<dots> = (None, foldl (\<lambda>errs i. add_error_msg errs ''Rule 10a'' NoLine grp
                              (''Duplicate key field combination: '' @ str_join ''|'' (key_of (rows ! i))))
                       errs shared)"
        by (simp add: foldl_map)
      finally show ?thesis using True cols by simp
    qed
  qed
  have loop: "rule_10a ((grp, df) # tables) headings dictionary errs =
             (case rule_10a_group headings dictionary (grp, df) errs of
                (None, errs') \<Rightarrow> rule_10a tables headings dictionary errs'
              | (Some e, errs') \<Rightarrow> (Some e, errs'))"
    unfolding rule_10a_def by simp
  have "rule_10a_group headings dictionary (grp, df) errs =
           (let dict_cell = (\<lambda>r c. the (map_of (zip (df_columns dictionary) (snd r)) c));
                key_fields = map (\<lambda>r. dict_cell r ''DICT_HDNG'')
                               (filter (\<lambda>r. dict_cell r ''DICT_GRP'' = Some grp \<and>
                                            (case dict_cell r ''DICT_STAT'' of
                                               None \<Rightarrow> False
                                             | Some s \<Rightarrow> sublist ''key'' (map ascii_lower s)))
                                  (df_rows dictionary));
                missing = filter (\<lambda>h. h \<notin> set (map Some hs)) key_fields;
                names = ''HEADING'' # map the key_fields;
                rows = map snd (df_rows df);
                key_of = (\<lambda>row. map (\<lambda>c. the (map_of (zip (df_columns df) row) c)) names);
                shared = filter (\<lambda>i. \<exists>j\<in>set [0..<length rows]. j \<noteq> i \<and> key_of (rows ! j) = key_of (rows ! i))
                           [0..<length rows]
            in if missing \<noteq> []
               then (None, foldl (\<lambda>errs h. add_error_msg errs ''Rule 10a'' NoLine grp
                                   (''Key field '' @ show_cell h @ '' not found.'')) errs missing)
               else if \<not> set names \<subseteq> set (df_columns df) then (Some KeyError, errs)
               else (None, foldl (\<lambda>errs i. add_error_msg errs ''Rule 10a'' NoLine grp
                                   (''Duplicate key field combination: '' @ str_join ''|'' (key_of (rows ! i))))
                             errs shared))"
    unfolding body Let_def shared_def key_of_def rows_def names_def missing_def kf_def
    by (rule refl)
  then show ?thesis using loop by (rule conjI)
qed


text \<open>
  In \<open>ex_LOCA_twice\<close> the two rows of \<open>BH01\<close> are reported and the row of \<open>BH02\<close> is
  not; in \<open>ex_LOCA\<close> no row is reported; a \<open>GEOL\<close> table without the key heading
  \<open>GEOL_TOP\<close> gets the error of the absent heading only, although its two rows are equal.
\<close>

theorem rule_10a_shared_keys_witness:
  "''DICT_GRP'' \<in> set (df_columns ex_dictionary)
   \<and> ''DICT_STAT'' \<in> set (df_columns ex_dictionary)
   \<and> ''DICT_HDNG'' \<in> set (df_columns ex_dictionary)
   \<and> map_of ex_headings ''LOCA'' = Some [''HEADING'', ''LOCA_ID'', ''LOCA_NATE'']
   \<and> rule_10a_group ex_headings ex_dictionary (''LOCA'', ex_LOCA_twice) [] =
       (None, [(''Rule 10a'',
          [\<lparr>err_line = NoLine, err_group = ''LOCA'', err_desc = ''Duplicate key field combination: DATA|BH01''\<rparr>,
           \<lparr>err_line = NoLine, err_group = ''LOCA'', err_desc = ''Duplicate key field combination: DATA|BH01''\<rparr>])])
   \<and> rule_10a_group ex_headings ex_dictionary (''LOCA'', ex_LOCA) [] = (None, [])
   \<and> map_of [(''GEOL'', [''HEADING'', ''LOCA_ID''])] ''GEOL'' = Some [''HEADING'', ''LOCA_ID'']
   \<and> rule_10a_group [(''GEOL'', [''HEADING'', ''LOCA_ID''])] ex_dictionary
         (''GEOL'', \<lparr>df_columns = [''HEADING'', ''LOCA_ID''],
                     df_rows = [(0, [''DATA'', ''BH01'']), (1, [''DATA'', ''BH01''])]\<rparr>) [] =
       (None, [(''Rule 10a'',
          [\<lparr>err_line = NoLine, err_group = ''GEOL'', err_desc = ''Key field GEOL_TOP not found.''\<rparr>])])"
proof -
  have a: "''DICT_GRP'' \<in> set (df_columns ex_dictionary)" by code_simp
  have b: "''DICT_STAT'' \<in> set (df_columns ex_dictionary)" by code_simp
  have c: "''DICT_HDNG'' \<in> set (df_columns ex_dictionary)" by code_simp
  have d: "map_of ex_headings ''LOCA'' = Some [''HEADING'', ''LOCA_ID'', ''LOCA_NATE'']" by code_simp
  have e: "map_of [(''GEOL'', [''HEADING'', ''LOCA_ID''])] ''GEOL'' = Some [''HEADING'', ''LOCA_ID'']" by simp
  note t = conjunct1[OF rule_10a_shared_keys[OF a b c d]]
  note u = conjunct1[OF rule_10a_shared_keys[OF a b c e]]
  have f: "rule_10a_group ex_headings ex_dictionary (''LOCA'', ex_LOCA_twice) [] =
       (None, [(''Rule 10a'',
          [\<lparr>err_line = NoLine, err_group = ''LOCA'', err_desc = ''Duplicate key field combination: DATA|BH01''\<rparr>,
           \<lparr>err_line = NoLine, err_group = ''LOCA'', err_desc = ''Duplicate key field combination: DATA|BH01''\<rparr>])])"
    unfolding t by code_simp
  have g: "rule_10a_group ex_headings ex_dictionary (''LOCA'', ex_LOCA) [] = (None, [])"
    unfolding t by code_simp
  have h: "rule_10a_group [(''GEOL'', [''HEADING'', ''LOCA_ID''])] ex_dictionary
         (''GEOL'', \<lparr>df_columns = [''HEADING'', ''LOCA_ID''],
                     df_rows = [(0, [''DATA'', ''BH01'']), (1, [''DATA'', ''BH01''])]\<rparr>) [] =
       (None, [(''Rule 10a'',
          [\<lparr>err_line = NoLine, err_group = ''GEOL'', err_desc = ''Key field GEOL_TOP not found.''\<rparr>])])"
    unfolding u by code_simp
  from a b c d e f g h show ?thesis by blast
qed

text \<open>
  The rows reported are not only \<open>DATA\<close> rows: the two \<open>UNIT\<close> rows of \<open>ex_LOCA_units\<close>,
  which have the same (empty) cell under \<open>LOCA_ID\<close>, are reported, each once.
\<close>

theorem rule_10a_unit_rows_counterexample:
  "rule_10a [(''LOCA'', ex_LOCA_units)] ex_headings ex_dictionary [] =
     (None, [(''Rule 10a'',
        [\<lparr>err_line = NoLine, err_group = ''LOCA'', err_desc = ''Duplicate key field combination: UNIT|''\<rparr>,
         \<lparr>err_line = NoLine, err_group = ''LOCA'', err_desc = ''Duplicate key field combination: UNIT|''\<rparr>])])"
  by code_simp

section \<open>What a group rule does to the tables\<close>











end
